theory Spec2Isabelle
  imports Complex_Main "HOL-Library.Signed_Division" "HOL-Library.Multiset"
    "HOL-Library.AList" "HOL-Library.Char_ord" "HOL-Library.List_Lexorder"
begin

section \<open>The querier of the query service (package v2)\<close>

text \<open>
  A shallow embedding of the Go file that holds the cache-aware querier: the search for
  missing time ranges, the merge of cached and fetched series, the execution of
  ClickHouse queries and the dispatch in \<open>QueryRange\<close>.

  Conventions of the embedding.
  \<^item> Go's \<open>int64\<close> is \<open>int\<close>. No arithmetic of the file is meant to wrap, and the two
    conversions through \<open>float64\<close> in \<open>findMissingTimeRanges\<close> (\<open>math.Min\<close>) are exact
    for magnitudes up to \<open>2 ^ 53\<close>, which covers millisecond timestamps; they are
    written as \<open>min\<close> on \<open>int\<close>.
  \<^item> A slice is a list and the nil slice is the empty list; a \<open>float64\<close> sample value is
    only ever copied, and is a \<open>real\<close>.
  \<^item> A pointer to a series is the series itself, and a slice of pointers holds no nil
    entry.
  \<^item> A panic of the Go runtime is the left summand of the result.
  \<^item> The wall clock read by \<open>time.Now()\<close> is an argument (\<open>now\<close>, in milliseconds);
    the units of one call read the same value.
  \<^item> The goroutines of a fan-out share nothing but the channel, which has room for every
    result. They are independent units of work, and the channel after \<open>wg.Wait()\<close> is the
    list of their results in some order; no statement below depends on that order.
  \<^item> The error map \<open>map[string]error\<close> is a partial function, the nil map being the
    empty one.
\<close>

subsection \<open>Data\<close>

datatype panic = DivideByZero | NilPointerDereference

record Point =
  Timestamp :: int
  Value :: real

record Series =
  Labels :: "(string \<times> string) list"
  Points :: "Point list"

record missInterval =
  mstart :: int
  mend :: int

text \<open>\<open>time.Duration\<close> counts nanoseconds; \<open>Milliseconds\<close> divides, truncating towards zero.\<close>

definition Milliseconds :: "int \<Rightarrow> int" where
  "Milliseconds d = d sdiv 1000000"

subsection \<open>findMissingTimeRanges\<close>

text \<open>The two nested loops that compute \<open>cachedStart\<close> and \<open>cachedEnd\<close>; both start at 0.\<close>

fun scanPoints :: "Point list \<Rightarrow> int \<times> int \<Rightarrow> int \<times> int" where
  "scanPoints [] (cachedStart, cachedEnd) = (cachedStart, cachedEnd)"
| "scanPoints (point # rest) (cachedStart, cachedEnd) =
     scanPoints rest
       (if cachedStart = 0 \<or> Timestamp point < cachedStart then Timestamp point else cachedStart,
        if cachedEnd = 0 \<or> Timestamp point > cachedEnd then Timestamp point else cachedEnd)"

fun scanSeries :: "Series list \<Rightarrow> int \<times> int \<Rightarrow> int \<times> int" where
  "scanSeries [] bounds = bounds"
| "scanSeries (series # rest) bounds = scanSeries rest (scanPoints (Points series) bounds)"

definition cachedBounds :: "Series list \<Rightarrow> int \<times> int" where
  "cachedBounds seriesList = scanSeries seriesList (0, 0)"

text \<open>
  \<open>roundedMillis\<close>: the clock rounded down to a multiple of \<open>min(step, 60)\<close> seconds. Go's
  \<open>%\<close> truncates (\<open>smod\<close>) and panics on a zero divisor.
\<close>

definition roundedMillis :: "int \<Rightarrow> int \<Rightarrow> panic + int" where
  "roundedMillis endMillis step =
     (let adjustStep = min step 60
      in if adjustStep * 1000 = 0 then Inl DivideByZero
         else Inr (endMillis - (endMillis smod (adjustStep * 1000))))"

text \<open>The cached range after the flux interval has been excluded from its end.\<close>

definition cappedBounds :: "int \<Rightarrow> Series list \<Rightarrow> int \<Rightarrow> int \<Rightarrow> panic + (int \<times> int)" where
  "cappedBounds step seriesList fluxInterval now =
     (case cachedBounds seriesList of (cachedStart, cachedEnd) \<Rightarrow>
        (case roundedMillis now step of
           Inl p \<Rightarrow> Inl p
         | Inr rounded \<Rightarrow>
             Inr (cachedStart, min cachedEnd (rounded - Milliseconds fluxInterval))))"

text \<open>The five cases, in the order of the \<open>if\<close> chain.\<close>

definition computeMisses :: "int \<Rightarrow> int \<Rightarrow> int \<Rightarrow> int \<Rightarrow> missInterval list \<times> bool" where
  "computeMisses start end' cachedStart cachedEnd =
     (if cachedStart \<ge> start \<and> cachedEnd \<le> end' then
        ([\<lparr>mstart = start, mend = cachedStart - 1\<rparr>, \<lparr>mstart = cachedEnd + 1, mend = end'\<rparr>], False)
      else if cachedStart \<le> start \<and> cachedEnd \<ge> end' then
        ([], False)
      else if cachedStart \<le> start \<and> cachedEnd \<ge> start then
        ([\<lparr>mstart = cachedEnd + 1, mend = end'\<rparr>], False)
      else if cachedStart \<le> end' \<and> cachedEnd \<ge> end' then
        ([\<lparr>mstart = start, mend = cachedStart - 1\<rparr>], False)
      else
        ([\<lparr>mstart = start, mend = end'\<rparr>], True))"

text \<open>The last loop keeps the misses with \<open>start < end\<close>.\<close>

fun validMisses :: "missInterval list \<Rightarrow> missInterval list" where
  "validMisses [] = []"
| "validMisses (miss # rest) =
     (if mstart miss < mend miss then miss # validMisses rest else validMisses rest)"

definition findMissingTimeRanges ::
  "int \<Rightarrow> int \<Rightarrow> int \<Rightarrow> Series list \<Rightarrow> int \<Rightarrow> int \<Rightarrow> panic + (missInterval list \<times> bool)" where
  "findMissingTimeRanges start end' step seriesList fluxInterval now =
     (case cappedBounds step seriesList fluxInterval now of
        Inl p \<Rightarrow> Inl p
      | Inr (cachedStart, cachedEnd) \<Rightarrow>
          (case computeMisses start end' cachedStart cachedEnd of
             (misses, replaceCacheData) \<Rightarrow> Inr (validMisses misses, replaceCacheData)))"

subsection \<open>Errors, requests and results\<close>

text \<open>
  A Go \<open>error\<close> value is either made outside this file (by the reader, the cache, the
  query builder or Prometheus) or made here by \<open>fmt.Errorf\<close>; both carry their message.
  The nil error is \<open>None\<close>.
\<close>

datatype error = Collaborator string | Errorf string

fun errorString :: "error \<Rightarrow> string" where
  "errorString (Collaborator msg) = msg"
| "errorString (Errorf msg) = msg"

text \<open>
  Modelled from the spec: the query types and panel types are string constants declared
  in package v3, outside the file; the spec names Builder, PromQL and ClickHouseSQL, and
  Graph, Value, List and Trace. Any other string is \<open>QueryTypeOther\<close> or \<open>PanelTypeOther\<close>.
\<close>

datatype QueryType =
  QueryTypeBuilder | QueryTypePromQL | QueryTypeClickHouseSQL | QueryTypeOther string

datatype PanelType =
  PanelTypeValue | PanelTypeGraph | PanelTypeList | PanelTypeTrace | PanelTypeOther string

text \<open>The sub-query records, reduced to the fields the file reads.\<close>

record BuilderQuery =
  BQ_Expression :: string
  BQ_Disabled :: bool

record PromQuery =
  PQ_Query :: string
  PQ_Disabled :: bool

record ClickHouseQuery =
  CH_Query :: string
  CH_Disabled :: bool

text \<open>
  A Go map that is iterated is an association list with distinct keys; the order of the
  list stands for the order, not fixed by Go, in which the entries are visited and in
  which the goroutines deliver their results.
\<close>

record CompositeQuery =
  BuilderQueries :: "(string \<times> BuilderQuery) list"
  ClickHouseQueries :: "(string \<times> ClickHouseQuery) list"
  PromQueries :: "(string \<times> PromQuery) list"
  PanelType :: PanelType
  QueryType :: QueryType

record QueryRangeParamsV3 =
  Start :: int
  End :: int
  Step :: int
  CompositeQuery :: "CompositeQuery option"
  NoCache :: bool

text \<open>\<open>model.QueryRangeParams\<close>, the request sent to Prometheus (times in milliseconds).\<close>

record QueryRangeParams =
  QRP_Start :: int
  QRP_End :: int
  QRP_Step :: int
  QRP_Query :: string

type_synonym Row = "(string \<times> string) list"

type_synonym AttributeKeys = "(string \<times> string) list"

record Result =
  QueryName :: string
  ResSeries :: "Series list"
  ResList :: "Row list"

record channelResult =
  CSeries :: "Series list"
  CList :: "Row list"
  Err :: "error option"
  Name :: string
  Query :: string

subsection \<open>Collaborators\<close>

text \<open>One stream of a Prometheus matrix: its metric and its float samples \<open>(T, F)\<close>.\<close>

record SampleStream =
  Metric :: "(string \<times> string) list"
  Floats :: "(int \<times> real) list"

text \<open>
  The reader. \<open>GetQueryRangeResult\<close> yields what \<open>Matrix()\<close> of the Prometheus result
  gives (a matrix or an error) together with its own error.
\<close>

record Reader =
  GetTimeSeriesResultV3 :: "string \<Rightarrow> Series list \<times> error option"
  GetListResultV3 :: "string \<Rightarrow> Row list \<times> error option"
  GetQueryRangeResult :: "QueryRangeParams \<Rightarrow> (error + SampleStream list) \<times> error option"

text \<open>
  The cache. Only \<open>Retrieve\<close> influences what \<open>QueryRange\<close> returns; \<open>Store\<close> changes the
  cache alone and is left out, as are the log calls and the two slices
  \<open>queriesExecuted\<close> and \<open>timeRanges\<close> that testing mode appends to.
\<close>

record Cache =
  Retrieve :: "string \<Rightarrow> bool \<Rightarrow> string \<times> error option"

text \<open>
  The \<open>querier\<close> struct. An interface field that may be nil is an option. The query
  builder is always constructed; of it the file calls \<open>PrepareQueries\<close> only.
\<close>

record querier =
  cache :: "Cache option"
  reader :: "Reader option"
  keyGenerator :: "(QueryRangeParamsV3 \<Rightarrow> (string \<times> string) list) option"
  fluxInterval :: int
  PrepareQueries :: "QueryRangeParamsV3 \<Rightarrow> AttributeKeys \<Rightarrow> error + (string \<times> string) list"
  testingMode :: bool
  returnedSeries :: "Series list"
  returnedErr :: "error option"

text \<open>
  What the file calls in other packages and files: \<open>json.Unmarshal\<close> into a series list
  (\<open>None\<close> when it fails, the list being left empty), the clock, \<open>metricsV4.BuildPromQuery\<close>,
  \<open>chErrors.IsResourceLimitError\<close> and the method \<open>runBuilderQuery\<close>.

  Modelled from the spec: \<open>runBuilderQuery\<close> is defined in another file of the package;
  by the spec each unit of work writes one tagged result to the shared channel.
\<close>

record externals =
  Unmarshal :: "string \<Rightarrow> Series list option"
  now :: int
  BuildPromQuery :: "PromQuery \<Rightarrow> int \<Rightarrow> int \<Rightarrow> int \<Rightarrow> QueryRangeParams"
  IsResourceLimitError :: "error \<Rightarrow> bool"
  runBuilderQuery ::
    "querier \<Rightarrow> BuilderQuery \<Rightarrow> QueryRangeParamsV3 \<Rightarrow> AttributeKeys \<Rightarrow> (string \<times> string) list
       \<Rightarrow> channelResult"

subsection \<open>execClickHouseQuery and execPromQuery\<close>

text \<open>The inner loop: keep the points with \<open>Timestamp \<ge> 0\<close>, count the others.\<close>

fun keepPoints :: "Point list \<Rightarrow> Point list \<times> nat \<Rightarrow> Point list \<times> nat" where
  "keepPoints [] (points, pointsWithNegativeTimestamps) = (points, pointsWithNegativeTimestamps)"
| "keepPoints (point # rest) (points, pointsWithNegativeTimestamps) =
     (if Timestamp point \<ge> 0
      then keepPoints rest (points @ [point], pointsWithNegativeTimestamps)
      else keepPoints rest (points, pointsWithNegativeTimestamps + 1))"

text \<open>The outer loop over the result; every series gets its filtered points.\<close>

fun keepResult :: "Series list \<Rightarrow> nat \<Rightarrow> Series list \<times> nat" where
  "keepResult [] pointsWithNegativeTimestamps = ([], pointsWithNegativeTimestamps)"
| "keepResult (series # rest) pointsWithNegativeTimestamps =
     (case keepPoints (Points series) ([], pointsWithNegativeTimestamps) of
        (points, n) \<Rightarrow>
          (case keepResult rest n of
             (rest', n') \<Rightarrow> (series\<lparr>Points := points\<rparr> # rest', n')))"

definition execClickHouseQuery :: "querier \<Rightarrow> string \<Rightarrow> panic + (Series list \<times> error option)" where
  "execClickHouseQuery q query =
     (if testingMode q \<and> reader q = None then Inr (returnedSeries q, returnedErr q)
      else case reader q of
             None \<Rightarrow> Inl NilPointerDereference
           | Some rd \<Rightarrow>
               (case GetTimeSeriesResultV3 rd query of
                  (result, err) \<Rightarrow> Inr (fst (keepResult result 0), err)))"

definition seriesOfStream :: "SampleStream \<Rightarrow> Series" where
  "seriesOfStream v =
     \<lparr>Labels = Metric v, Points = map (\<lambda>(t, f). \<lparr>Timestamp = t, Value = f\<rparr>) (Floats v)\<rparr>"

definition execPromQuery :: "querier \<Rightarrow> QueryRangeParams \<Rightarrow> panic + (Series list \<times> error option)" where
  "execPromQuery q params =
     (if testingMode q \<and> reader q = None then Inr (returnedSeries q, returnedErr q)
      else case reader q of
             None \<Rightarrow> Inl NilPointerDereference
           | Some rd \<Rightarrow>
               (case GetQueryRangeResult rd params of
                  (promResult, Some err) \<Rightarrow> Inr ([], Some err)
                | (Inl promErr, None) \<Rightarrow> Inr ([], Some promErr)
                | (Inr matrix, None) \<Rightarrow> Inr (map seriesOfStream matrix, None)))"

subsection \<open>The method findMissingTimeRanges of the querier\<close>

definition q_findMissingTimeRanges ::
  "externals \<Rightarrow> querier \<Rightarrow> int \<Rightarrow> int \<Rightarrow> int \<Rightarrow> string \<Rightarrow> panic + (missInterval list \<times> bool)" where
  "q_findMissingTimeRanges ext q start end' step cachedData =
     (case Unmarshal ext cachedData of
        None \<Rightarrow> Inr ([\<lparr>mstart = start, mend = end'\<rparr>], True)
      | Some cachedSeriesList \<Rightarrow>
          findMissingTimeRanges start end' step cachedSeriesList (fluxInterval q) (now ext))"

subsection \<open>labelsToString and mergeSerieses\<close>

text \<open>\<open>strings.Join\<close>.\<close>

fun Join :: "string list \<Rightarrow> string \<Rightarrow> string" where
  "Join [] sep = []"
| "Join [x] sep = x"
| "Join (x # y # rest) sep = x @ sep @ Join (y # rest) sep"

text \<open>
  The labels of a series are the entries of a Go map: a list of pairs with distinct keys.
  \<open>labelsToString\<close> sorts the entries by key (bytewise order of strings) and prints them.
\<close>

definition labelsToString :: "(string \<times> string) list \<Rightarrow> string" where
  "labelsToString labels =
     ''{'' @ Join (map (\<lambda>(k, v). k @ ''='' @ v) (sort_key fst labels)) '','' @ ''}''"

text \<open>
  Modelled from the spec: \<open>SortPoints\<close> and \<open>RemoveDuplicatePoints\<close> are methods of
  \<open>v3.Series\<close>, declared outside the file. By the spec the first sorts the points by
  timestamp, ascending, and the second collapses adjacent points of equal timestamp to
  one; which of them stays is left open by the spec, and the last one is kept here.
\<close>

definition SortPoints :: "Point list \<Rightarrow> Point list" where
  "SortPoints ps = sort_key Timestamp ps"

fun RemoveDuplicatePoints :: "Point list \<Rightarrow> Point list" where
  "RemoveDuplicatePoints [] = []"
| "RemoveDuplicatePoints [p] = [p]"
| "RemoveDuplicatePoints (p # p' # rest) =
     (if Timestamp p = Timestamp p' then RemoveDuplicatePoints (p' # rest)
      else p # RemoveDuplicatePoints (p' # rest))"

text \<open>
  \<open>seriesesByLabels\<close> is an association list from label string to series; an assignment
  to a present key replaces the series in place, one to a new key appends.
  First loop: every cached series is stored under its label string.
\<close>

fun storeCached :: "Series list \<Rightarrow> (string \<times> Series) list \<Rightarrow> (string \<times> Series) list" where
  "storeCached [] seriesesByLabels = seriesesByLabels"
| "storeCached (series # rest) seriesesByLabels =
     storeCached rest (AList.update (labelsToString (Labels series)) series seriesesByLabels)"

text \<open>
  Second loop: a missed series with a new label string is stored; otherwise its points
  are appended to the points of the series already stored.
\<close>

fun addMissed :: "Series list \<Rightarrow> (string \<times> Series) list \<Rightarrow> (string \<times> Series) list" where
  "addMissed [] seriesesByLabels = seriesesByLabels"
| "addMissed (series # rest) seriesesByLabels =
     (case map_of seriesesByLabels (labelsToString (Labels series)) of
        None \<Rightarrow>
          addMissed rest (AList.update (labelsToString (Labels series)) series seriesesByLabels)
      | Some existing \<Rightarrow>
          addMissed rest
            (AList.update (labelsToString (Labels series))
               (existing\<lparr>Points := Points existing @ Points series\<rparr>) seriesesByLabels))"

text \<open>Third loop: every stored series is sorted, freed of duplicates and returned.\<close>

definition sortAndDedup :: "Series \<Rightarrow> Series" where
  "sortAndDedup series = series\<lparr>Points := RemoveDuplicatePoints (SortPoints (Points series))\<rparr>"

definition mergeSerieses :: "Series list \<Rightarrow> Series list \<Rightarrow> Series list" where
  "mergeSerieses cachedSeries missedSeries =
     map (\<lambda>(labelString, series). sortAndDedup series)
       (addMissed missedSeries (storeCached cachedSeries []))"

text \<open>
  \<open>mergeSerieses\<close> works on the series it is given, through their pointers. What it leaves
  in \<open>missedSeries\<close>, which \<open>runPromQueries\<close> returns when the cache is replaced: a
  missed series that was stored (its label string met neither in the cache nor earlier
  in the list) has received the points of the later series of its label string and has
  been sorted and freed of duplicates; every other missed series is as it was.
\<close>

fun missedAfterMerge :: "string list \<Rightarrow> Series list \<Rightarrow> Series list" where
  "missedAfterMerge stored [] = []"
| "missedAfterMerge stored (series # rest) =
     (if labelsToString (Labels series) \<in> set stored then series
      else sortAndDedup
             (series\<lparr>Points := Points series @
                concat (map Points
                  (filter (\<lambda>s. labelsToString (Labels s) = labelsToString (Labels series)) rest))\<rparr>))
     # missedAfterMerge (labelsToString (Labels series) # stored) rest"

subsection \<open>Collecting the channel\<close>

text \<open>
  After \<open>wg.Wait()\<close> the channel holds one result per unit of work. The loop that drains
  it is the same in \<open>runBuilderQueries\<close>, \<open>runPromQueries\<close> and \<open>runClickHouseQueries\<close>.
\<close>

fun collectSeries ::
  "channelResult list \<Rightarrow> Result list \<times> (string \<rightharpoonup> error) \<times> error list
     \<Rightarrow> Result list \<times> (string \<rightharpoonup> error) \<times> error list" where
  "collectSeries [] (results, errQueriesByName, errs) = (results, errQueriesByName, errs)"
| "collectSeries (result # rest) (results, errQueriesByName, errs) =
     (case Err result of
        Some err \<Rightarrow>
          collectSeries rest (results, errQueriesByName(Name result \<mapsto> err), errs @ [err])
      | None \<Rightarrow>
          collectSeries rest
            (results @ [\<lparr>QueryName = Name result, ResSeries = CSeries result, ResList = []\<rparr>],
             errQueriesByName, errs))"

text \<open>The same loop in \<open>runBuilderListQueries\<close>, which fills \<open>List\<close>.\<close>

fun collectList ::
  "channelResult list \<Rightarrow> Result list \<times> (string \<rightharpoonup> error) \<times> error list
     \<Rightarrow> Result list \<times> (string \<rightharpoonup> error) \<times> error list" where
  "collectList [] (res, errQuriesByName, errs) = (res, errQuriesByName, errs)"
| "collectList (r # rest) (res, errQuriesByName, errs) =
     (case Err r of
        Some err \<Rightarrow> collectList rest (res, errQuriesByName(Name r \<mapsto> err), errs @ [err])
      | None \<Rightarrow>
          collectList rest
            (res @ [\<lparr>QueryName = Name r, ResSeries = [], ResList = CList r\<rparr>],
             errQuriesByName, errs))"

subsection \<open>runBuilderQueries\<close>

fun builderUnits ::
  "externals \<Rightarrow> querier \<Rightarrow> QueryRangeParamsV3 \<Rightarrow> AttributeKeys \<Rightarrow> (string \<times> string) list
     \<Rightarrow> (string \<times> BuilderQuery) list \<Rightarrow> channelResult list" where
  "builderUnits ext q params keys cacheKeys [] = []"
| "builderUnits ext q params keys cacheKeys ((queryName, builderQuery) # rest) =
     (if queryName = BQ_Expression builderQuery
      then runBuilderQuery ext q builderQuery params keys cacheKeys
             # builderUnits ext q params keys cacheKeys rest
      else builderUnits ext q params keys cacheKeys rest)"

definition runBuilderQueries ::
  "externals \<Rightarrow> querier \<Rightarrow> QueryRangeParamsV3 \<Rightarrow> AttributeKeys
     \<Rightarrow> panic + (Result list \<times> (string \<rightharpoonup> error) \<times> error option)" where
  "runBuilderQueries ext q params keys =
     (case keyGenerator q of
        None \<Rightarrow> Inl NilPointerDereference
      | Some GenerateKeys \<Rightarrow>
          (case CompositeQuery params of
             None \<Rightarrow> Inl NilPointerDereference
           | Some cq \<Rightarrow>
               (case collectSeries
                       (builderUnits ext q params keys (GenerateKeys params) (BuilderQueries cq))
                       ([], Map.empty, []) of
                  (results, errQueriesByName, errs) \<Rightarrow>
                    Inr (results, errQueriesByName,
                         if length errs > 0 then Some (Errorf ''error in builder queries'')
                         else None))))"

subsection \<open>runPromQueries\<close>

text \<open>
  The loop over the misses of one PromQL query: the first failing fetch ends the unit
  with that error and the text of the request that failed.
\<close>

fun fetchMisses ::
  "externals \<Rightarrow> querier \<Rightarrow> PromQuery \<Rightarrow> int \<Rightarrow> missInterval list \<Rightarrow> Series list
     \<Rightarrow> panic + ((error \<times> string) + Series list)" where
  "fetchMisses ext q promQuery step [] missedSeries = Inr (Inr missedSeries)"
| "fetchMisses ext q promQuery step (miss # rest) missedSeries =
     (let query = BuildPromQuery ext promQuery step (mstart miss) (mend miss)
      in case execPromQuery q query of
           Inl p \<Rightarrow> Inl p
         | Inr (series, Some err) \<Rightarrow> Inr (Inl (err, QRP_Query query))
         | Inr (series, None) \<Rightarrow> fetchMisses ext q promQuery step rest (missedSeries @ series))"

text \<open>The body of the goroutine of one enabled PromQL query, up to its send on the channel.\<close>

definition promUnit ::
  "externals \<Rightarrow> querier \<Rightarrow> QueryRangeParamsV3 \<Rightarrow> (string \<times> string) list \<Rightarrow> string \<Rightarrow> PromQuery
     \<Rightarrow> panic + channelResult" where
  "promUnit ext q params cacheKeys queryName promQuery =
     (let cachedData =
            (case (map_of cacheKeys queryName, cache q) of
               (Some cacheKey, Some c) \<Rightarrow>
                 (if \<not> NoCache params
                  then (case Retrieve c cacheKey True of
                          (data, None) \<Rightarrow> data
                        | (data, Some err) \<Rightarrow> [])
                  else [])
             | _ \<Rightarrow> [])
      in case q_findMissingTimeRanges ext q (Start params) (End params) (Step params) cachedData of
           Inl p \<Rightarrow> Inl p
         | Inr (misses, replaceCachedData) \<Rightarrow>
             (case fetchMisses ext q promQuery (Step params) misses [] of
                Inl p \<Rightarrow> Inl p
              | Inr (Inl (err, query)) \<Rightarrow>
                  Inr \<lparr>CSeries = [], CList = [], Err = Some err, Name = queryName, Query = query\<rparr>
              | Inr (Inr missedSeries) \<Rightarrow>
                  (let cachedSeries = (case Unmarshal ext cachedData of None \<Rightarrow> [] | Some l \<Rightarrow> l);
                       mergedSeries =
                         (if replaceCachedData
                          then missedAfterMerge
                                 (map (\<lambda>s. labelsToString (Labels s)) cachedSeries) missedSeries
                          else mergeSerieses cachedSeries missedSeries)
                   in Inr \<lparr>CSeries = mergedSeries, CList = [], Err = None, Name = queryName,
                           Query = PQ_Query promQuery\<rparr>)))"

fun promUnits ::
  "externals \<Rightarrow> querier \<Rightarrow> QueryRangeParamsV3 \<Rightarrow> (string \<times> string) list
     \<Rightarrow> (string \<times> PromQuery) list \<Rightarrow> panic + channelResult list" where
  "promUnits ext q params cacheKeys [] = Inr []"
| "promUnits ext q params cacheKeys ((queryName, promQuery) # rest) =
     (if PQ_Disabled promQuery then promUnits ext q params cacheKeys rest
      else case promUnit ext q params cacheKeys queryName promQuery of
             Inl p \<Rightarrow> Inl p
           | Inr result \<Rightarrow>
               (case promUnits ext q params cacheKeys rest of
                  Inl p \<Rightarrow> Inl p
                | Inr results \<Rightarrow> Inr (result # results)))"

definition runPromQueries ::
  "externals \<Rightarrow> querier \<Rightarrow> QueryRangeParamsV3
     \<Rightarrow> panic + (Result list \<times> (string \<rightharpoonup> error) \<times> error option)" where
  "runPromQueries ext q params =
     (case CompositeQuery params of
        None \<Rightarrow> Inl NilPointerDereference
      | Some cq \<Rightarrow>
          (case keyGenerator q of
             None \<Rightarrow> Inl NilPointerDereference
           | Some GenerateKeys \<Rightarrow>
               (case promUnits ext q params (GenerateKeys params) (PromQueries cq) of
                  Inl p \<Rightarrow> Inl p
                | Inr channelResults \<Rightarrow>
                    (case collectSeries channelResults ([], Map.empty, []) of
                       (results, errQueriesByName, errs) \<Rightarrow>
                         Inr (results, errQueriesByName,
                              if length errs > 0 then Some (Errorf ''error in prom queries'')
                              else None)))))"

subsection \<open>runClickHouseQueries\<close>

fun clickHouseUnits ::
  "querier \<Rightarrow> (string \<times> ClickHouseQuery) list \<Rightarrow> panic + channelResult list" where
  "clickHouseUnits q [] = Inr []"
| "clickHouseUnits q ((queryName, clickHouseQuery) # rest) =
     (if CH_Disabled clickHouseQuery then clickHouseUnits q rest
      else case execClickHouseQuery q (CH_Query clickHouseQuery) of
             Inl p \<Rightarrow> Inl p
           | Inr (series, err) \<Rightarrow>
               (case clickHouseUnits q rest of
                  Inl p \<Rightarrow> Inl p
                | Inr results \<Rightarrow>
                    Inr (\<lparr>CSeries = series, CList = [], Err = err, Name = queryName,
                          Query = CH_Query clickHouseQuery\<rparr> # results)))"

definition runClickHouseQueries ::
  "querier \<Rightarrow> QueryRangeParamsV3 \<Rightarrow> panic + (Result list \<times> (string \<rightharpoonup> error) \<times> error option)" where
  "runClickHouseQueries q params =
     (case CompositeQuery params of
        None \<Rightarrow> Inl NilPointerDereference
      | Some cq \<Rightarrow>
          (case clickHouseUnits q (ClickHouseQueries cq) of
             Inl p \<Rightarrow> Inl p
           | Inr channelResults \<Rightarrow>
               (case collectSeries channelResults ([], Map.empty, []) of
                  (results, errQueriesByName, errs) \<Rightarrow>
                    Inr (results, errQueriesByName,
                         if length errs > 0 then Some (Errorf ''error in clickhouse queries'')
                         else None))))"

subsection \<open>runBuilderListQueries\<close>

text \<open>One unit per prepared query; a failing fetch is wrapped with the name of the query.\<close>

fun listUnits :: "querier \<Rightarrow> (string \<times> string) list \<Rightarrow> panic + channelResult list" where
  "listUnits q [] = Inr []"
| "listUnits q ((name, query) # rest) =
     (case reader q of
        None \<Rightarrow> Inl NilPointerDereference
      | Some rd \<Rightarrow>
          (case listUnits q rest of
             Inl p \<Rightarrow> Inl p
           | Inr results \<Rightarrow>
               (case GetListResultV3 rd query of
                  (rowList, Some err) \<Rightarrow>
                    Inr (\<lparr>CSeries = [], CList = [],
                          Err = Some (Errorf (''error in query-'' @ name @ '': '' @ errorString err)),
                          Name = name, Query = query\<rparr> # results)
                | (rowList, None) \<Rightarrow>
                    Inr (\<lparr>CSeries = [], CList = rowList, Err = None, Name = name,
                          Query = query\<rparr> # results))))"

text \<open>The message of \<open>multierr.Combine\<close>: the messages of the errors, joined by \<open>"; "\<close>.\<close>

definition Combine :: "error list \<Rightarrow> string" where
  "Combine errs = Join (map errorString errs) ''; ''"

definition runBuilderListQueries ::
  "querier \<Rightarrow> QueryRangeParamsV3 \<Rightarrow> AttributeKeys
     \<Rightarrow> panic + (Result list \<times> (string \<rightharpoonup> error) \<times> error option)" where
  "runBuilderListQueries q params keys =
     (case PrepareQueries q params keys of
        Inl err \<Rightarrow> Inr ([], Map.empty, Some err)
      | Inr queries \<Rightarrow>
          (case listUnits q queries of
             Inl p \<Rightarrow> Inl p
           | Inr ch \<Rightarrow>
               (case collectList ch ([], Map.empty, []) of
                  (res, errQuriesByName, errs) \<Rightarrow>
                    if length errs \<noteq> 0
                    then Inr ([], errQuriesByName,
                              Some (Errorf (''encountered multiple errors: '' @ Combine errs)))
                    else Inr (res, Map.empty, None))))"

subsection \<open>QueryRange\<close>

text \<open>
  Modelled from the spec: \<open>EnabledQueries\<close> is a method of \<open>v3.CompositeQuery\<close>, declared
  outside the file; by the spec it is the number of enabled (not disabled) sub-queries
  of the request, which are those of its query type.
\<close>

definition EnabledQueries :: "CompositeQuery \<Rightarrow> nat" where
  "EnabledQueries c =
     (case QueryType c of
        QueryTypeBuilder \<Rightarrow> length (filter (\<lambda>(name, query). \<not> BQ_Disabled query) (BuilderQueries c))
      | QueryTypeClickHouseSQL \<Rightarrow>
          length (filter (\<lambda>(name, query). \<not> CH_Disabled query) (ClickHouseQueries c))
      | QueryTypePromQL \<Rightarrow> length (filter (\<lambda>(name, query). \<not> PQ_Disabled query) (PromQueries c))
      | QueryTypeOther other \<Rightarrow> 0)"

text \<open>The decimal digits of a number, for the verb \<open>%d\<close>.\<close>

fun showNat :: "nat \<Rightarrow> string" where
  "showNat n =
     (if n < 10 then [char_of (48 + n)] else showNat (n div 10) @ [char_of (48 + n mod 10)])"

declare showNat.simps [simp del]

text \<open>
  The loop over the error map of a Builder request: an entry whose error is not a
  resource-limit error is deleted.
\<close>

definition dropInternalErrors :: "externals \<Rightarrow> (string \<rightharpoonup> error) \<Rightarrow> (string \<rightharpoonup> error)" where
  "dropInternalErrors ext errQueriesByName =
     (\<lambda>name. case errQueriesByName name of
                None \<Rightarrow> None
              | Some err \<Rightarrow> if IsResourceLimitError ext err then Some err else None)"

text \<open>The first statement of \<open>QueryRange\<close>: the dispatch, guarded by the nil check.\<close>

definition dispatch ::
  "externals \<Rightarrow> querier \<Rightarrow> QueryRangeParamsV3 \<Rightarrow> AttributeKeys
     \<Rightarrow> panic + (Result list \<times> (string \<rightharpoonup> error) \<times> error option)" where
  "dispatch ext q params keys =
     (case CompositeQuery params of
        None \<Rightarrow> Inr ([], Map.empty, None)
      | Some cq \<Rightarrow>
          (case QueryType cq of
             QueryTypeBuilder \<Rightarrow>
               (case (if PanelType cq = PanelTypeList \<or> PanelType cq = PanelTypeTrace
                      then runBuilderListQueries q params keys
                      else runBuilderQueries ext q params keys) of
                  Inl p \<Rightarrow> Inl p
                | Inr (results, errQueriesByName, err) \<Rightarrow>
                    Inr (results, dropInternalErrors ext errQueriesByName, err))
           | QueryTypePromQL \<Rightarrow> runPromQueries ext q params
           | QueryTypeClickHouseSQL \<Rightarrow> runClickHouseQueries q params
           | QueryTypeOther other \<Rightarrow> Inr ([], Map.empty, Some (Errorf ''invalid query type''))))"

text \<open>
  \<open>QueryRange\<close>: the dispatch, then the check for panels of type Value, which reads the
  panel type through \<open>params.CompositeQuery\<close> without a nil check.
\<close>

definition QueryRange ::
  "externals \<Rightarrow> querier \<Rightarrow> QueryRangeParamsV3 \<Rightarrow> AttributeKeys
     \<Rightarrow> panic + (Result list \<times> (string \<rightharpoonup> error) \<times> error option)" where
  "QueryRange ext q params keys =
     (case dispatch ext q params keys of
        Inl p \<Rightarrow> Inl p
      | Inr (results, errQueriesByName, err) \<Rightarrow>
          (case CompositeQuery params of
             None \<Rightarrow> Inl NilPointerDereference
           | Some cq \<Rightarrow>
               if PanelType cq = PanelTypeValue then
                 (if length results > 1 \<and> EnabledQueries cq > 1 then
                    Inr (results, errQueriesByName,
                         Some (Errorf ''there can be only one active query for value type panel''))
                  else if length results = 1 \<and> length (ResSeries (results ! 0)) > 1 then
                    Inr (results, errQueriesByName,
                         Some (Errorf
                           (''there can be only one result series for value type panel but got ''
                              @ showNat (length (ResSeries (results ! 0))))))
                  else Inr (results, errQueriesByName, err))
               else Inr (results, errQueriesByName, err)))"

subsection \<open>Notions used in the statements\<close>


text \<open>The failed units of a channel, as pairs of name and error, in the order of delivery.\<close>

definition failures :: "channelResult list \<Rightarrow> (string \<times> error) list" where
  "failures rs = List.map_filter (\<lambda>r. map_option (Pair (Name r)) (Err r)) rs"

subsection \<open>Sample collaborators and requests\<close>

definition sampleExternals :: externals where
  "sampleExternals =
     \<lparr>Unmarshal = (\<lambda>data. if data = ''[]'' then Some [] else None),
      now = 1700000000000,
      BuildPromQuery =
        (\<lambda>promQuery step start end'.
           \<lparr>QRP_Start = start, QRP_End = end', QRP_Step = step, QRP_Query = PQ_Query promQuery\<rparr>),
      IsResourceLimitError = (\<lambda>err. err = Collaborator ''memory limit exceeded''),
      runBuilderQuery =
        (\<lambda>q builderQuery params keys cacheKeys.
           \<lparr>CSeries = [], CList = [],
            Err = (if BQ_Expression builderQuery = ''B'' then Some (Collaborator ''timeout'')
                   else if BQ_Expression builderQuery = ''C''
                   then Some (Collaborator ''memory limit exceeded'')
                   else None),
            Name = BQ_Expression builderQuery, Query = []\<rparr>)\<rparr>"

definition sampleReader :: Reader where
  "sampleReader =
     \<lparr>GetTimeSeriesResultV3 =
        (\<lambda>query. if query = ''SELECT fail'' then ([], Some (Collaborator ''timeout''))
                  else if query = ''SELECT by job''
                  then ([\<lparr>Labels = [(''job'', ''api'')], Points = [\<lparr>Timestamp = 10, Value = 2\<rparr>]\<rparr>,
                         \<lparr>Labels = [(''job'', ''db'')], Points = [\<lparr>Timestamp = 10, Value = 7\<rparr>]\<rparr>],
                        None)
                  else ([\<lparr>Labels = [(''job'', ''api'')],
                          Points = [\<lparr>Timestamp = - 5, Value = 1\<rparr>,
                                    \<lparr>Timestamp = 10, Value = 2\<rparr>]\<rparr>], None)),
      GetListResultV3 =
        (\<lambda>query. if query = ''SELECT B'' then ([], Some (Collaborator ''timeout''))
                  else ([ [(''body'', ''started'')] ], None)),
      GetQueryRangeResult =
        (\<lambda>params. if QRP_Query params = ''up{'' then (Inr [], Some (Collaborator ''parse error''))
                   else (Inr [\<lparr>Metric = [(''job'', ''api'')], Floats = [(150, 1)]\<rparr>], None))\<rparr>"

definition sampleQuerier :: querier where
  "sampleQuerier =
     \<lparr>cache = None, reader = Some sampleReader, keyGenerator = Some (\<lambda>params. []),
      fluxInterval = 0,
      PrepareQueries =
        (\<lambda>params keys.
           case CompositeQuery params of
             None \<Rightarrow> Inl (Collaborator ''no composite query'')
           | Some cq \<Rightarrow>
               if BuilderQueries cq = [] then Inl (Collaborator ''no builder query'')
               else Inr (map (\<lambda>(name, query). (name, ''SELECT '' @ name)) (BuilderQueries cq))),
      testingMode = False, returnedSeries = [], returnedErr = None\<rparr>"


definition sampleSeries :: "Series list" where
  "sampleSeries =
     [\<lparr>Labels = [(''job'', ''api'')],
       Points = [\<lparr>Timestamp = 30, Value = 3\<rparr>, \<lparr>Timestamp = 10, Value = 1\<rparr>,
                 \<lparr>Timestamp = 30, Value = 4\<rparr>]\<rparr>,
      \<lparr>Labels = [(''job'', ''db'')], Points = [\<lparr>Timestamp = 20, Value = 2\<rparr>]\<rparr>]"

text \<open>Composite queries of the three query types, and a request over the window \<open>[100, 200]\<close>.\<close>

definition clickHouseComposite ::
  "PanelType \<Rightarrow> (string \<times> ClickHouseQuery) list \<Rightarrow> CompositeQuery" where
  "clickHouseComposite panel queries =
     \<lparr>BuilderQueries = [], ClickHouseQueries = queries, PromQueries = [],
      PanelType = panel, QueryType = QueryTypeClickHouseSQL\<rparr>"

definition builderComposite ::
  "PanelType \<Rightarrow> (string \<times> BuilderQuery) list \<Rightarrow> CompositeQuery" where
  "builderComposite panel queries =
     \<lparr>BuilderQueries = queries, ClickHouseQueries = [], PromQueries = [],
      PanelType = panel, QueryType = QueryTypeBuilder\<rparr>"

definition promComposite ::
  "PanelType \<Rightarrow> (string \<times> PromQuery) list \<Rightarrow> CompositeQuery" where
  "promComposite panel queries =
     \<lparr>BuilderQueries = [], ClickHouseQueries = [], PromQueries = queries,
      PanelType = panel, QueryType = QueryTypePromQL\<rparr>"

definition request :: "CompositeQuery \<Rightarrow> QueryRangeParamsV3" where
  "request cq = \<lparr>Start = 100, End = 200, Step = 60, CompositeQuery = Some cq, NoCache = True\<rparr>"

definition threeClickHouseQueries :: "(string \<times> ClickHouseQuery) list" where
  "threeClickHouseQueries =
     [(''A'', \<lparr>CH_Query = ''SELECT ok'', CH_Disabled = False\<rparr>),
      (''B'', \<lparr>CH_Query = ''SELECT fail'', CH_Disabled = False\<rparr>),
      (''C'', \<lparr>CH_Query = ''SELECT by job'', CH_Disabled = False\<rparr>),
      (''D'', \<lparr>CH_Query = ''SELECT fail'', CH_Disabled = True\<rparr>)]"

definition threeBuilderQueries :: "(string \<times> BuilderQuery) list" where
  "threeBuilderQueries =
     [(''A'', \<lparr>BQ_Expression = ''A'', BQ_Disabled = False\<rparr>),
      (''B'', \<lparr>BQ_Expression = ''B'', BQ_Disabled = False\<rparr>),
      (''C'', \<lparr>BQ_Expression = ''C'', BQ_Disabled = False\<rparr>),
      (''F1'', \<lparr>BQ_Expression = ''A/B'', BQ_Disabled = False\<rparr>)]"

definition twoPromQueries :: "(string \<times> PromQuery) list" where
  "twoPromQueries =
     [(''A'', \<lparr>PQ_Query = ''up'', PQ_Disabled = False\<rparr>),
      (''B'', \<lparr>PQ_Query = ''up{'', PQ_Disabled = False\<rparr>)]"

section \<open>Properties\<close>

subsection \<open>findMissingTimeRanges\<close>



text \<open>A step of 0 makes the rounding of the clock divide by zero.\<close>

lemma findMissingTimeRanges_step_zero:
  "findMissingTimeRanges start end' 0 seriesList flux clock = Inl DivideByZero"
  by (simp add: findMissingTimeRanges_def cappedBounds_def roundedMillis_def split: prod.splits)






text \<open>
  C3. If the cached bytes do not decode into a series list, the method returns the one
  miss \<open>[start, end]\<close> and asks for the cache to be replaced; it does not fail.
\<close>

theorem undecodable_cache_is_one_miss:
  assumes "Unmarshal ext cachedData = None"
  shows "q_findMissingTimeRanges ext q start end' step cachedData =
           Inr ([\<lparr>mstart = start, mend = end'\<rparr>], True)"
  using assms by (simp add: q_findMissingTimeRanges_def)

theorem undecodable_cache_is_one_miss_witness:
  "Unmarshal sampleExternals ''{broken'' = None
   \<and> q_findMissingTimeRanges sampleExternals sampleQuerier 100 200 60 ''{broken'' =
       Inr ([\<lparr>mstart = 100, mend = 200\<rparr>], True)"
  using undecodable_cache_is_one_miss [of sampleExternals "''{broken''" sampleQuerier 100 200 60]
  by (simp add: sampleExternals_def)

subsection \<open>mergeSerieses\<close>

lemma update_fresh: "k \<notin> fst ` set al \<Longrightarrow> AList.update k v al = al @ [(k, v)]"
  by (induction al) auto

lemma storeCached_fresh:
  "distinct (map (\<lambda>s. labelsToString (Labels s)) xs) \<Longrightarrow>
   (\<lambda>s. labelsToString (Labels s)) ` set xs \<inter> fst ` set m = {} \<Longrightarrow>
   storeCached xs m = m @ map (\<lambda>s. (labelsToString (Labels s), s)) xs"
proof (induction xs arbitrary: m)
  case Nil
  then show ?case by simp
next
  case (Cons x xs)
  from Cons.prems have fresh: "labelsToString (Labels x) \<notin> fst ` set m" by auto
  have "storeCached xs (m @ [(labelsToString (Labels x), x)]) =
          (m @ [(labelsToString (Labels x), x)]) @ map (\<lambda>s. (labelsToString (Labels s), s)) xs"
    using Cons.prems by (intro Cons.IH) auto
  then show ?case using fresh by (simp add: update_fresh)
qed

lemma addMissed_fresh:
  "distinct (map (\<lambda>s. labelsToString (Labels s)) xs) \<Longrightarrow>
   (\<lambda>s. labelsToString (Labels s)) ` set xs \<inter> fst ` set m = {} \<Longrightarrow>
   addMissed xs m = m @ map (\<lambda>s. (labelsToString (Labels s), s)) xs"
proof (induction xs arbitrary: m)
  case Nil
  then show ?case by simp
next
  case (Cons x xs)
  from Cons.prems have fresh: "labelsToString (Labels x) \<notin> fst ` set m" by auto
  then have none: "map_of m (labelsToString (Labels x)) = None"
    by (simp add: map_of_eq_None_iff)
  have "addMissed xs (m @ [(labelsToString (Labels x), x)]) =
          (m @ [(labelsToString (Labels x), x)]) @ map (\<lambda>s. (labelsToString (Labels s), s)) xs"
    using Cons.prems by (intro Cons.IH) auto
  then show ?case using fresh none by (simp add: update_fresh)
qed

text \<open>What \<open>sortAndDedup\<close> leaves: the same timestamps, strictly increasing.\<close>

lemma set_RemoveDuplicatePoints:
  "Timestamp ` set (RemoveDuplicatePoints ps) = Timestamp ` set ps"
  by (induction ps rule: RemoveDuplicatePoints.induct) auto

lemma sorted_RemoveDuplicatePoints:
  "sorted (map Timestamp ps) \<Longrightarrow> sorted_wrt (<) (map Timestamp (RemoveDuplicatePoints ps))"
proof (induction ps rule: RemoveDuplicatePoints.induct)
  case (3 p p' rest)
  show ?case
  proof (cases "Timestamp p = Timestamp p'")
    case True
    with 3 show ?thesis by simp
  next
    case False
    with "3.prems" have lt: "Timestamp p < Timestamp p'" by simp
    have "\<forall>t \<in> Timestamp ` set (RemoveDuplicatePoints (p' # rest)). Timestamp p < t"
      using "3.prems" lt unfolding set_RemoveDuplicatePoints by auto
    moreover have "sorted_wrt (<) (map Timestamp (RemoveDuplicatePoints (p' # rest)))"
      using 3 False by simp
    ultimately show ?thesis using False by simp
  qed
qed simp_all

lemma sortAndDedup_increasing:
  "sorted_wrt (<) (map Timestamp (Points (sortAndDedup series)))"
  by (simp add: sortAndDedup_def SortPoints_def sorted_RemoveDuplicatePoints)

lemma sortAndDedup_timestamps:
  "Timestamp ` set (Points (sortAndDedup series)) = Timestamp ` set (Points series)"
  by (simp add: sortAndDedup_def SortPoints_def set_RemoveDuplicatePoints)

text \<open>
  C4, as amended. For a series list whose label strings are pairwise distinct, merging
  it with the empty list, on either side, gives the list with the points of every series
  sorted by timestamp and freed of duplicate timestamps, up to the order of the series;
  the timestamps of every series returned are strictly increasing.
\<close>

theorem merge_with_empty:
  assumes "distinct (map (\<lambda>s. labelsToString (Labels s)) X)"
  shows "mset (mergeSerieses X []) = mset (map sortAndDedup X)
       \<and> mset (mergeSerieses [] X) = mset (map sortAndDedup X)
       \<and> (\<forall>series \<in> set (mergeSerieses X [] @ mergeSerieses [] X).
             sorted_wrt (<) (map Timestamp (Points series)))"
proof -
  have l: "mergeSerieses X [] = map sortAndDedup X"
    using assms by (simp add: mergeSerieses_def storeCached_fresh comp_def case_prod_unfold)
  have r: "mergeSerieses [] X = map sortAndDedup X"
    using assms by (simp add: mergeSerieses_def addMissed_fresh comp_def case_prod_unfold)
  show ?thesis unfolding l r by (auto simp: sortAndDedup_increasing)
qed

theorem merge_with_empty_witness:
  "distinct (map (\<lambda>s. labelsToString (Labels s)) sampleSeries)
   \<and> mset (mergeSerieses sampleSeries []) = mset (map sortAndDedup sampleSeries)
   \<and> mset (mergeSerieses [] sampleSeries) = mset (map sortAndDedup sampleSeries)
   \<and> map sortAndDedup sampleSeries =
       [\<lparr>Labels = [(''job'', ''api'')],
         Points = [\<lparr>Timestamp = 10, Value = 1\<rparr>, \<lparr>Timestamp = 30, Value = 4\<rparr>]\<rparr>,
        \<lparr>Labels = [(''job'', ''db'')], Points = [\<lparr>Timestamp = 20, Value = 2\<rparr>]\<rparr>]"
proof -
  have d: "distinct (map (\<lambda>s. labelsToString (Labels s)) sampleSeries)"
    by (simp add: sampleSeries_def labelsToString_def)
  have n: "map sortAndDedup sampleSeries =
       [\<lparr>Labels = [(''job'', ''api'')],
         Points = [\<lparr>Timestamp = 10, Value = 1\<rparr>, \<lparr>Timestamp = 30, Value = 4\<rparr>]\<rparr>,
        \<lparr>Labels = [(''job'', ''db'')], Points = [\<lparr>Timestamp = 20, Value = 2\<rparr>]\<rparr>]"
    by (simp add: sampleSeries_def sortAndDedup_def SortPoints_def)
  from merge_with_empty [OF d] d n show ?thesis by simp
qed

text \<open>
  C4, as stated, fails for a list that holds two series of one label set: as cached
  series the second replaces the first, as missed series the two are joined, and neither
  result is the list with every series sorted.
\<close>

theorem merge_with_empty_counterexample:
  "mergeSerieses
     [\<lparr>Labels = [(''job'', ''api'')], Points = [\<lparr>Timestamp = 1, Value = 1\<rparr>]\<rparr>,
      \<lparr>Labels = [(''job'', ''api'')], Points = [\<lparr>Timestamp = 2, Value = 2\<rparr>]\<rparr>] []
     = [\<lparr>Labels = [(''job'', ''api'')], Points = [\<lparr>Timestamp = 2, Value = 2\<rparr>]\<rparr>]
   \<and> mergeSerieses []
       [\<lparr>Labels = [(''job'', ''api'')], Points = [\<lparr>Timestamp = 1, Value = 1\<rparr>]\<rparr>,
        \<lparr>Labels = [(''job'', ''api'')], Points = [\<lparr>Timestamp = 2, Value = 2\<rparr>]\<rparr>]
     = [\<lparr>Labels = [(''job'', ''api'')],
         Points = [\<lparr>Timestamp = 1, Value = 1\<rparr>, \<lparr>Timestamp = 2, Value = 2\<rparr>]\<rparr>]
   \<and> map sortAndDedup
       [\<lparr>Labels = [(''job'', ''api'')], Points = [\<lparr>Timestamp = 1, Value = 1\<rparr>]\<rparr>,
        \<lparr>Labels = [(''job'', ''api'')], Points = [\<lparr>Timestamp = 2, Value = 2\<rparr>]\<rparr>]
     = [\<lparr>Labels = [(''job'', ''api'')], Points = [\<lparr>Timestamp = 1, Value = 1\<rparr>]\<rparr>,
        \<lparr>Labels = [(''job'', ''api'')], Points = [\<lparr>Timestamp = 2, Value = 2\<rparr>]\<rparr>]"
  by (simp add: mergeSerieses_def sortAndDedup_def SortPoints_def labelsToString_def)

subsection \<open>execClickHouseQuery\<close>

lemma keepPoints_filter:
  "keepPoints ps (acc, n) =
     (acc @ filter (\<lambda>point. 0 \<le> Timestamp point) ps,
      n + length (filter (\<lambda>point. Timestamp point < 0) ps))"
  by (induction ps arbitrary: acc n) auto

lemma keepResult_map:
  "keepResult result n =
     (map (\<lambda>series. series\<lparr>Points := filter (\<lambda>point. 0 \<le> Timestamp point) (Points series)\<rparr>)
        result,
      n + length (filter (\<lambda>point. Timestamp point < 0) (concat (map Points result))))"
  by (induction result arbitrary: n) (auto simp: keepPoints_filter)

text \<open>In testing mode without a reader nothing is executed: the prepared answer is returned.\<close>

lemma execClickHouseQuery_testing:
  "testingMode q \<Longrightarrow> reader q = None \<Longrightarrow>
     execClickHouseQuery q query = Inr (returnedSeries q, returnedErr q)"
  by (simp add: execClickHouseQuery_def)

text \<open>
  C9. A ClickHouse query run by the reader returns the series of the reader, each with
  exactly its points of timestamp at least 0, in their order, and the error of the
  reader unchanged: dropping points adds no failure.
\<close>

theorem negative_timestamps_dropped:
  assumes "reader q = Some rd"
  shows "execClickHouseQuery q query =
           Inr (map (\<lambda>series.
                       series\<lparr>Points := filter (\<lambda>point. 0 \<le> Timestamp point) (Points series)\<rparr>)
                  (fst (GetTimeSeriesResultV3 rd query)),
                snd (GetTimeSeriesResultV3 rd query))"
  using assms by (simp add: execClickHouseQuery_def keepResult_map split: prod.splits)

theorem negative_timestamps_dropped_witness:
  "reader sampleQuerier = Some sampleReader
   \<and> GetTimeSeriesResultV3 sampleReader ''SELECT ok'' =
       ([\<lparr>Labels = [(''job'', ''api'')],
          Points = [\<lparr>Timestamp = - 5, Value = 1\<rparr>, \<lparr>Timestamp = 10, Value = 2\<rparr>]\<rparr>], None)
   \<and> execClickHouseQuery sampleQuerier ''SELECT ok'' =
       Inr ([\<lparr>Labels = [(''job'', ''api'')], Points = [\<lparr>Timestamp = 10, Value = 2\<rparr>]\<rparr>], None)"
  using negative_timestamps_dropped [of sampleQuerier sampleReader "''SELECT ok''"]
  by (simp add: sampleQuerier_def sampleReader_def)

subsection \<open>Collecting the channel\<close>

lemma collectSeries_results:
  "fst (collectSeries rs (R, M, E)) =
     R @ map (\<lambda>r. \<lparr>QueryName = Name r, ResSeries = CSeries r, ResList = []\<rparr>)
           (filter (\<lambda>r. Err r = None) rs)"
  by (induction rs arbitrary: R M E) (auto split: option.splits)

lemma collectSeries_errs:
  "snd (snd (collectSeries rs (R, M, E))) = E @ List.map_filter Err rs"
  by (induction rs arbitrary: R M E) (auto simp: List.map_filter_simps split: option.splits)

lemma failures_simps:
  "failures [] = []"
  "failures (r # rs) = (case Err r of None \<Rightarrow> failures rs | Some e \<Rightarrow> (Name r, e) # failures rs)"
  by (simp_all add: failures_def List.map_filter_simps split: option.splits)

lemma collectSeries_map:
  "fst (snd (collectSeries rs (R, M, E))) = M ++ map_of (rev (failures rs))"
  by (induction rs arbitrary: R M E) (auto simp: failures_simps split: option.splits)

lemma collectList_results:
  "fst (collectList rs (R, M, E)) =
     R @ map (\<lambda>r. \<lparr>QueryName = Name r, ResSeries = [], ResList = CList r\<rparr>)
           (filter (\<lambda>r. Err r = None) rs)"
  by (induction rs arbitrary: R M E) (auto split: option.splits)

lemma collectList_errs:
  "snd (snd (collectList rs (R, M, E))) = E @ List.map_filter Err rs"
  by (induction rs arbitrary: R M E) (auto simp: List.map_filter_simps split: option.splits)

lemma collectList_map:
  "fst (snd (collectList rs (R, M, E))) = M ++ map_of (rev (failures rs))"
  by (induction rs arbitrary: R M E) (auto simp: failures_simps split: option.splits)

lemma set_failures: "set (failures rs) = {(Name r, e) | r e. r \<in> set rs \<and> Err r = Some e}"
  by (induction rs) (auto simp: failures_simps split: option.splits)

lemma dom_failures:
  "dom (map_of (rev (failures rs))) = Name ` {r \<in> set rs. Err r \<noteq> None}"
  by (force simp: dom_map_of_conv_image_fst set_failures)

lemma map_fst_failures: "map fst (failures rs) = map Name (filter (\<lambda>r. Err r \<noteq> None) rs)"
  by (induction rs) (auto simp: failures_simps split: option.splits)

lemma failures_distinct_lookup:
  assumes "distinct (map Name rs)" "r \<in> set rs" "Err r = Some e"
  shows "map_of (rev (failures rs)) (Name r) = Some e"
proof -
  have "distinct (map fst (rev (failures rs)))"
    using assms(1) by (simp add: rev_map [symmetric] map_fst_failures distinct_map_filter)
  moreover have "(Name r, e) \<in> set (rev (failures rs))"
    using assms(2,3) by (auto simp: set_failures)
  ultimately show ?thesis by (rule map_of_is_SomeI)
qed

lemma map_filter_Nil_iff: "List.map_filter f xs = [] \<longleftrightarrow> (\<forall>x \<in> set xs. f x = None)"
  by (induction xs) (auto simp: List.map_filter_simps split: option.splits)

lemma length_filter_all_but_one:
  "distinct (map f xs) \<Longrightarrow> k \<in> f ` set xs \<Longrightarrow> length (filter (\<lambda>x. f x \<noteq> k) xs) = length xs - 1"
proof (induction xs)
  case Nil
  then show ?case by simp
next
  case (Cons x xs)
  show ?case
  proof (cases "f x = k")
    case True
    with Cons.prems have "k \<notin> f ` set xs" by auto
    then have "filter (\<lambda>x. f x \<noteq> k) xs = xs" by (auto simp: filter_id_conv)
    with True show ?thesis by simp
  next
    case False
    with Cons.prems have "k \<in> f ` set xs" by auto
    moreover from this have "xs \<noteq> []" by auto
    ultimately show ?thesis using Cons False by (cases xs) auto
  qed
qed

subsection \<open>QueryRange\<close>

lemma failures_Nil_iff: "failures rs = [] \<longleftrightarrow> List.map_filter Err rs = []"
  by (induction rs) (auto simp: failures_simps List.map_filter_simps split: option.splits)

lemma collected_error_forces_overall:
  assumes "collectSeries units ([], Map.empty, []) = (R, M, E)" and "M \<noteq> Map.empty"
  shows "E \<noteq> []"
proof -
  have M: "M = fst (snd (collectSeries units ([], Map.empty, [])))"
    and E: "E = snd (snd (collectSeries units ([], Map.empty, [])))"
    using assms(1) by simp_all
  from M assms(2) have "failures units \<noteq> []" by (auto simp: collectSeries_map)
  then show ?thesis using E by (simp add: collectSeries_errs failures_Nil_iff)
qed

lemma collectedList_error_forces_overall:
  assumes "collectList units ([], Map.empty, []) = (R, M, E)" and "M \<noteq> Map.empty"
  shows "E \<noteq> []"
proof -
  have M: "M = fst (snd (collectList units ([], Map.empty, [])))"
    and E: "E = snd (snd (collectList units ([], Map.empty, [])))"
    using assms(1) by simp_all
  from M assms(2) have "failures units \<noteq> []" by (auto simp: collectList_map)
  then show ?thesis using E by (simp add: collectList_errs failures_Nil_iff)
qed

lemma runBuilderQueries_overall:
  assumes "runBuilderQueries ext q params keys = Inr (results, raw, err)" and "raw \<noteq> Map.empty"
  shows "err \<noteq> None"
proof (cases "keyGenerator q")
  case None
  with assms(1) show ?thesis by (simp add: runBuilderQueries_def)
next
  case (Some gk)
  show ?thesis
  proof (cases "CompositeQuery params")
    case None
    with Some assms(1) show ?thesis by (simp add: runBuilderQueries_def)
  next
    case (Some cq)
    obtain R M E where
      c: "collectSeries (builderUnits ext q params keys (gk params) (BuilderQueries cq))
            ([], Map.empty, []) = (R, M, E)"
      using prod_cases3 by blast
    from assms(1) \<open>keyGenerator q = Some gk\<close> Some c
    have "raw = M" and "err = (if length E > 0 then Some (Errorf ''error in builder queries'') else None)"
      by (simp_all add: runBuilderQueries_def)
    moreover from c assms(2) \<open>raw = M\<close> have "E \<noteq> []"
      using collected_error_forces_overall by blast
    ultimately show ?thesis by simp
  qed
qed

lemma runBuilderListQueries_overall:
  assumes "runBuilderListQueries q params keys = Inr (results, raw, err)" and "raw \<noteq> Map.empty"
  shows "err \<noteq> None"
proof (cases "PrepareQueries q params keys")
  case (Inl e)
  with assms show ?thesis by (simp add: runBuilderListQueries_def)
next
  case (Inr queries)
  show ?thesis
  proof (cases "listUnits q queries")
    case (Inl p)
    with Inr assms(1) show ?thesis by (simp add: runBuilderListQueries_def)
  next
    case units: (Inr ch)
    obtain R M E where c: "collectList ch ([], Map.empty, []) = (R, M, E)"
      using prod_cases3 by blast
    show ?thesis
    proof (cases "E = []")
      case True
      with assms Inr units c show ?thesis by (simp add: runBuilderListQueries_def)
    next
      case False
      with assms(1) Inr units c show ?thesis by (auto simp add: runBuilderListQueries_def)
    qed
  qed
qed

lemma QueryRange_keeps_results_and_map:
  assumes "CompositeQuery params = Some cq"
    and "dispatch ext q params keys = Inr (results, errorsByName, err)"
  shows "\<exists>err'. QueryRange ext q params keys = Inr (results, errorsByName, err')
           \<and> (err \<noteq> None \<longrightarrow> err' \<noteq> None)"
  using assms by (simp add: QueryRange_def)

lemma dropInternalErrors_iff:
  "dropInternalErrors ext raw name = Some e \<longleftrightarrow> raw name = Some e \<and> IsResourceLimitError ext e"
  by (auto simp: dropInternalErrors_def split: option.splits if_splits)

lemma builder_exposure:
  assumes "CompositeQuery params = Some cq" "QueryType cq = QueryTypeBuilder"
    and "(if PanelType cq = PanelTypeList \<or> PanelType cq = PanelTypeTrace
          then runBuilderListQueries q params keys
          else runBuilderQueries ext q params keys) = Inr (results, raw, err)"
  shows "\<exists>err'. QueryRange ext q params keys = Inr (results, dropInternalErrors ext raw, err')
           \<and> (raw \<noteq> Map.empty \<longrightarrow> err' \<noteq> None)"
proof -
  have d: "dispatch ext q params keys = Inr (results, dropInternalErrors ext raw, err)"
    using assms by (simp add: dispatch_def)
  have "raw \<noteq> Map.empty \<longrightarrow> err \<noteq> None"
  proof (cases "PanelType cq = PanelTypeList \<or> PanelType cq = PanelTypeTrace")
    case True
    with assms(3) have "runBuilderListQueries q params keys = Inr (results, raw, err)" by simp
    then show ?thesis using runBuilderListQueries_overall by blast
  next
    case False
    with assms(3) have "runBuilderQueries ext q params keys = Inr (results, raw, err)" by simp
    then show ?thesis using runBuilderQueries_overall by blast
  qed
  with QueryRange_keeps_results_and_map [OF assms(1) d] show ?thesis by blast
qed

lemma set_map_filter: "set (List.map_filter f xs) = {y. \<exists>x \<in> set xs. f x = Some y}"
  by (induction xs) (auto simp: List.map_filter_simps split: option.splits)

lemma failures_map_facts:
  "dom (map_of (rev (failures us))) = Name ` {u \<in> set us. Err u \<noteq> None}
   \<and> (\<forall>name e. map_of (rev (failures us)) name = Some e
         \<longrightarrow> (\<exists>u \<in> set us. Name u = name \<and> Err u = Some e))
   \<and> (distinct (map Name us)
         \<longrightarrow> (\<forall>u \<in> set us. \<forall>e. Err u = Some e \<longrightarrow> map_of (rev (failures us)) (Name u) = Some e))"
proof (intro conjI allI impI ballI)
  show "dom (map_of (rev (failures us))) = Name ` {u \<in> set us. Err u \<noteq> None}"
    by (rule dom_failures)
next
  fix name e
  assume "map_of (rev (failures us)) name = Some e"
  then have "(name, e) \<in> set (failures us)" by (auto dest: map_of_SomeD)
  then show "\<exists>u \<in> set us. Name u = name \<and> Err u = Some e" by (auto simp: set_failures)
next
  fix u e
  assume "distinct (map Name us)" "u \<in> set us" "Err u = Some e"
  then show "map_of (rev (failures us)) (Name u) = Some e" by (rule failures_distinct_lookup)
qed

text \<open>The sample requests, evaluated.\<close>

lemmas sample_defs = sampleExternals_def sampleQuerier_def sampleReader_def request_def
  clickHouseComposite_def builderComposite_def promComposite_def threeClickHouseQueries_def
  threeBuilderQueries_def twoPromQueries_def

lemma prom_units:
  "promUnits sampleExternals sampleQuerier (request (promComposite PanelTypeGraph twoPromQueries))
     [] twoPromQueries
   = Inr [\<lparr>CSeries = [\<lparr>Labels = [(''job'', ''api'')], Points = [\<lparr>Timestamp = 150, Value = 1\<rparr>]\<rparr>],
           CList = [], Err = None, Name = ''A'', Query = ''up''\<rparr>,
          \<lparr>CSeries = [], CList = [], Err = Some (Collaborator ''parse error''), Name = ''B'',
           Query = ''up{''\<rparr>]"
  by (simp add: sample_defs promUnit_def q_findMissingTimeRanges_def execPromQuery_def
      seriesOfStream_def sortAndDedup_def SortPoints_def labelsToString_def)

lemma builder_run:
  "runBuilderQueries sampleExternals sampleQuerier
     (request (builderComposite PanelTypeGraph threeBuilderQueries)) []
   = Inr ([\<lparr>QueryName = ''A'', ResSeries = [], ResList = []\<rparr>],
          [''B'' \<mapsto> Collaborator ''timeout'', ''C'' \<mapsto> Collaborator ''memory limit exceeded''],
          Some (Errorf ''error in builder queries''))"
  by (simp add: sample_defs runBuilderQueries_def)

lemma ch_units:
  "clickHouseUnits sampleQuerier threeClickHouseQueries
   = Inr [\<lparr>CSeries = [\<lparr>Labels = [(''job'', ''api'')], Points = [\<lparr>Timestamp = 10, Value = 2\<rparr>]\<rparr>],
           CList = [], Err = None, Name = ''A'', Query = ''SELECT ok''\<rparr>,
          \<lparr>CSeries = [], CList = [], Err = Some (Collaborator ''timeout''), Name = ''B'',
           Query = ''SELECT fail''\<rparr>,
          \<lparr>CSeries = [\<lparr>Labels = [(''job'', ''api'')], Points = [\<lparr>Timestamp = 10, Value = 2\<rparr>]\<rparr>,
                      \<lparr>Labels = [(''job'', ''db'')], Points = [\<lparr>Timestamp = 10, Value = 7\<rparr>]\<rparr>],
           CList = [], Err = None, Name = ''C'', Query = ''SELECT by job''\<rparr>]"
  by (simp add: sample_defs execClickHouseQuery_def)

lemma clickHouseUnits_one_failure:
  assumes "\<forall>(name, query) \<in> set qs. \<not> CH_Disabled query \<longrightarrow>
             (\<exists>series err. execClickHouseQuery q (CH_Query query) = Inr (series, err)
                \<and> (err \<noteq> None \<longleftrightarrow> name = K))"
  shows "\<exists>units. clickHouseUnits q qs = Inr units
           \<and> map Name units = map fst (filter (\<lambda>(name, query). \<not> CH_Disabled query) qs)
           \<and> (\<forall>u \<in> set units. Err u \<noteq> None \<longleftrightarrow> Name u = K)"
  using assms
proof (induction qs)
  case Nil
  then show ?case by simp
next
  case (Cons a qs)
  obtain name query where a: "a = (name, query)" by (cases a)
  from Cons.prems have "\<forall>(name, query) \<in> set qs. \<not> CH_Disabled query \<longrightarrow>
             (\<exists>series err. execClickHouseQuery q (CH_Query query) = Inr (series, err)
                \<and> (err \<noteq> None \<longleftrightarrow> name = K))" by simp
  from Cons.IH [OF this] obtain units where
    u: "clickHouseUnits q qs = Inr units"
       "map Name units = map fst (filter (\<lambda>(name, query). \<not> CH_Disabled query) qs)"
       "\<forall>u \<in> set units. Err u \<noteq> None \<longleftrightarrow> Name u = K" by blast
  show ?case
  proof (cases "CH_Disabled query")
    case True
    with a u show ?thesis by simp
  next
    case False
    with Cons.prems a obtain series err where
      e: "execClickHouseQuery q (CH_Query query) = Inr (series, err)" "err \<noteq> None \<longleftrightarrow> name = K"
      by auto
    with a u False show ?thesis by simp
  qed
qed

text \<open>
  C5. A ClickHouseSQL request whose enabled sub-queries all succeed except the one named
  \<open>K\<close>: \<open>QueryRange\<close> returns one result less than there are enabled sub-queries, the
  results being those of the sub-queries other than \<open>K\<close>, an error map whose only key is
  \<open>K\<close>, and an error.
\<close>

theorem one_failing_clickhouse_query:
  assumes cq: "CompositeQuery params = Some cq" "QueryType cq = QueryTypeClickHouseSQL"
    and names: "distinct (map fst (ClickHouseQueries cq))"
    and K: "(K, queryK) \<in> set (ClickHouseQueries cq)" "\<not> CH_Disabled queryK"
    and runs: "\<forall>(name, query) \<in> set (ClickHouseQueries cq). \<not> CH_Disabled query \<longrightarrow>
             (\<exists>series err. execClickHouseQuery q (CH_Query query) = Inr (series, err)
                \<and> (err \<noteq> None \<longleftrightarrow> name = K))"
  shows "\<exists>results errorsByName err.
           QueryRange ext q params keys = Inr (results, errorsByName, Some err)
           \<and> length results =
               length (filter (\<lambda>(name, query). \<not> CH_Disabled query) (ClickHouseQueries cq)) - 1
           \<and> set (map QueryName results) =
               fst ` set (filter (\<lambda>(name, query). \<not> CH_Disabled query) (ClickHouseQueries cq)) - {K}
           \<and> dom errorsByName = {K}"
proof -
  let ?enabled = "filter (\<lambda>(name, query). \<not> CH_Disabled query) (ClickHouseQueries cq)"
  from clickHouseUnits_one_failure [OF runs] obtain units where
    u: "clickHouseUnits q (ClickHouseQueries cq) = Inr units"
       "map Name units = map fst ?enabled"
       "\<forall>u \<in> set units. Err u \<noteq> None \<longleftrightarrow> Name u = K" by blast
  obtain R M E where c: "collectSeries units ([], Map.empty, []) = (R, M, E)"
    by (cases "collectSeries units ([], Map.empty, [])") auto
  have dist: "distinct (map Name units)"
    using names u(2) by (simp add: distinct_map_filter)
  have "K \<in> fst ` set ?enabled" using K by force
  then have Kin: "K \<in> Name ` set units" using u(2) by (metis list.set_map)
  have len: "length units = length ?enabled" using u(2) by (metis length_map)
  have R: "R = fst (collectSeries units ([], Map.empty, []))" using c by simp
  then have "length R = length (filter (\<lambda>u. Err u = None) units)"
    by (simp add: collectSeries_results)
  also have "filter (\<lambda>u. Err u = None) units = filter (\<lambda>u. Name u \<noteq> K) units"
    using u(3) by (intro filter_cong) auto
  also have "length \<dots> = length units - 1"
    using dist Kin by (rule length_filter_all_but_one)
  finally have lenR: "length R = length ?enabled - 1" using len by simp
  have "map QueryName R = map Name (filter (\<lambda>u. Err u = None) units)"
    using R by (simp add: collectSeries_results comp_def)
  also have "filter (\<lambda>u. Err u = None) units = filter (\<lambda>u. Name u \<noteq> K) units"
    using u(3) by (intro filter_cong) auto
  finally have "set (map QueryName R) = Name ` set units - {K}" by auto
  also have "Name ` set units = fst ` set ?enabled" using u(2) by (metis list.set_map)
  finally have namesR: "set (map QueryName R) = fst ` set ?enabled - {K}" .
  have "M = fst (snd (collectSeries units ([], Map.empty, [])))" using c by simp
  then have "dom M = Name ` {u \<in> set units. Err u \<noteq> None}"
    by (simp add: collectSeries_map dom_failures)
  also have "\<dots> = {K}" using u(3) Kin by auto
  finally have domM: "dom M = {K}" .
  have "E = snd (snd (collectSeries units ([], Map.empty, [])))" using c by simp
  then have "E = List.map_filter Err units" by (simp add: collectSeries_errs)
  moreover have "\<exists>u \<in> set units. Err u \<noteq> None" using u(3) Kin by auto
  ultimately have E: "E \<noteq> []" by (simp add: map_filter_Nil_iff)
  have run: "runClickHouseQueries q params =
               Inr (R, M, Some (Errorf ''error in clickhouse queries''))"
    using cq u(1) c E by (simp add: runClickHouseQueries_def)
  then have "dispatch ext q params keys = Inr (R, M, Some (Errorf ''error in clickhouse queries''))"
    using cq by (simp add: dispatch_def)
  then have "\<exists>err. QueryRange ext q params keys = Inr (R, M, Some err)"
    using cq by (simp add: QueryRange_def)
  with lenR namesR domM show ?thesis by blast
qed

theorem one_failing_clickhouse_query_witness:
  "\<exists>results errorsByName err.
     QueryRange sampleExternals sampleQuerier
       (request (clickHouseComposite PanelTypeGraph threeClickHouseQueries)) []
       = Inr (results, errorsByName, Some err)
     \<and> length results = 2 \<and> set (map QueryName results) = {''A'', ''C''}
     \<and> dom errorsByName = {''B''}"
proof -
  let ?cq = "clickHouseComposite PanelTypeGraph threeClickHouseQueries"
  have h1: "CompositeQuery (request ?cq) = Some ?cq" by (simp add: request_def)
  have h2: "QueryType ?cq = QueryTypeClickHouseSQL" by (simp add: clickHouseComposite_def)
  have h3: "distinct (map fst (ClickHouseQueries ?cq))"
    by (simp add: clickHouseComposite_def threeClickHouseQueries_def)
  have h4: "(''B'', \<lparr>CH_Query = ''SELECT fail'', CH_Disabled = False\<rparr>) \<in> set (ClickHouseQueries ?cq)"
    by (simp add: clickHouseComposite_def threeClickHouseQueries_def)
  have h5: "\<not> CH_Disabled \<lparr>CH_Query = ''SELECT fail'', CH_Disabled = False\<rparr>" by simp
  have h6: "\<forall>(name, query) \<in> set (ClickHouseQueries ?cq). \<not> CH_Disabled query \<longrightarrow>
             (\<exists>series err. execClickHouseQuery sampleQuerier (CH_Query query) = Inr (series, err)
                \<and> (err \<noteq> None \<longleftrightarrow> name = ''B''))"
    by (simp add: clickHouseComposite_def threeClickHouseQueries_def execClickHouseQuery_def
        sampleQuerier_def sampleReader_def)
  have h7: "fst ` set (filter (\<lambda>(name, query). \<not> CH_Disabled query) (ClickHouseQueries ?cq))
              - {''B''} = {''A'', ''C''}"
    by (auto simp add: clickHouseComposite_def threeClickHouseQueries_def)
  from one_failing_clickhouse_query [OF h1 h2 h3 h4 h5 h6, of sampleExternals "[]"]
  show ?thesis unfolding h7
    by (simp add: clickHouseComposite_def threeClickHouseQueries_def numeral_2_eq_2)
qed

text \<open>
  C6, as amended. For a Builder request, on the series path and on the List or Trace
  path alike, the error map returned holds exactly the resource-limit errors of the map
  the executor built, and any entry of that map makes the overall error non-nil. For a
  PromQL and for a ClickHouseSQL request the map returned holds every failed unit.
\<close>

theorem error_exposure:
  assumes "CompositeQuery params = Some cq"
  shows "(QueryType cq = QueryTypeBuilder
            \<and> (if PanelType cq = PanelTypeList \<or> PanelType cq = PanelTypeTrace
                then runBuilderListQueries q params keys
                else runBuilderQueries ext q params keys) = Inr (results, raw, err)
          \<longrightarrow> (\<exists>errorsByName err'.
                 QueryRange ext q params keys = Inr (results, errorsByName, err')
                 \<and> (\<forall>name e. errorsByName name = Some e
                       \<longleftrightarrow> raw name = Some e \<and> IsResourceLimitError ext e)
                 \<and> (raw \<noteq> Map.empty \<longrightarrow> err' \<noteq> None)))
       \<and> (QueryType cq = QueryTypePromQL \<and> keyGenerator q = Some gk
            \<and> promUnits ext q params (gk params) (PromQueries cq) = Inr units
          \<longrightarrow> (\<exists>results' errorsByName err'.
                 QueryRange ext q params keys = Inr (results', errorsByName, err')
                 \<and> dom errorsByName = Name ` {u \<in> set units. Err u \<noteq> None}
                 \<and> (\<forall>name e. errorsByName name = Some e
                       \<longrightarrow> (\<exists>u \<in> set units. Name u = name \<and> Err u = Some e))
                 \<and> (distinct (map Name units)
                       \<longrightarrow> (\<forall>u \<in> set units. \<forall>e. Err u = Some e
                              \<longrightarrow> errorsByName (Name u) = Some e))))
       \<and> (QueryType cq = QueryTypeClickHouseSQL
            \<and> clickHouseUnits q (ClickHouseQueries cq) = Inr units
          \<longrightarrow> (\<exists>results' errorsByName err'.
                 QueryRange ext q params keys = Inr (results', errorsByName, err')
                 \<and> dom errorsByName = Name ` {u \<in> set units. Err u \<noteq> None}
                 \<and> (\<forall>name e. errorsByName name = Some e
                       \<longrightarrow> (\<exists>u \<in> set units. Name u = name \<and> Err u = Some e))
                 \<and> (distinct (map Name units)
                       \<longrightarrow> (\<forall>u \<in> set units. \<forall>e. Err u = Some e
                              \<longrightarrow> errorsByName (Name u) = Some e))))"
proof (intro conjI impI)
  assume a: "QueryType cq = QueryTypeBuilder
            \<and> (if PanelType cq = PanelTypeList \<or> PanelType cq = PanelTypeTrace
                then runBuilderListQueries q params keys
                else runBuilderQueries ext q params keys) = Inr (results, raw, err)"
  from builder_exposure [OF assms] a obtain err' where
    "QueryRange ext q params keys = Inr (results, dropInternalErrors ext raw, err')"
    "raw \<noteq> Map.empty \<longrightarrow> err' \<noteq> None" by blast
  then show "\<exists>errorsByName err'.
                 QueryRange ext q params keys = Inr (results, errorsByName, err')
                 \<and> (\<forall>name e. errorsByName name = Some e
                       \<longleftrightarrow> raw name = Some e \<and> IsResourceLimitError ext e)
                 \<and> (raw \<noteq> Map.empty \<longrightarrow> err' \<noteq> None)"
    by (intro exI [of _ "dropInternalErrors ext raw"] exI [of _ err'])
      (simp add: dropInternalErrors_iff)
next
  assume a: "QueryType cq = QueryTypePromQL \<and> keyGenerator q = Some gk
            \<and> promUnits ext q params (gk params) (PromQueries cq) = Inr units"
  obtain R M E where c: "collectSeries units ([], Map.empty, []) = (R, M, E)"
    using prod_cases3 by blast
  then have "M = fst (snd (collectSeries units ([], Map.empty, [])))" by simp
  then have M: "M = map_of (rev (failures units))" by (simp add: collectSeries_map)
  have "\<exists>e. dispatch ext q params keys = Inr (R, M, e)"
    using assms a c by (simp add: dispatch_def runPromQueries_def)
  then obtain e where "dispatch ext q params keys = Inr (R, M, e)" ..
  from QueryRange_keeps_results_and_map [OF assms this] obtain err' where
    "QueryRange ext q params keys = Inr (R, map_of (rev (failures units)), err')"
    using M by blast
  then show "\<exists>results' errorsByName err'.
                 QueryRange ext q params keys = Inr (results', errorsByName, err')
                 \<and> dom errorsByName = Name ` {u \<in> set units. Err u \<noteq> None}
                 \<and> (\<forall>name e. errorsByName name = Some e
                       \<longrightarrow> (\<exists>u \<in> set units. Name u = name \<and> Err u = Some e))
                 \<and> (distinct (map Name units)
                       \<longrightarrow> (\<forall>u \<in> set units. \<forall>e. Err u = Some e
                              \<longrightarrow> errorsByName (Name u) = Some e))"
    using failures_map_facts [of units]
    by (intro exI [of _ R] exI [of _ "map_of (rev (failures units))"] exI [of _ err']) simp
next
  assume a: "QueryType cq = QueryTypeClickHouseSQL
            \<and> clickHouseUnits q (ClickHouseQueries cq) = Inr units"
  obtain R M E where c: "collectSeries units ([], Map.empty, []) = (R, M, E)"
    using prod_cases3 by blast
  then have "M = fst (snd (collectSeries units ([], Map.empty, [])))" by simp
  then have M: "M = map_of (rev (failures units))" by (simp add: collectSeries_map)
  have "\<exists>e. dispatch ext q params keys = Inr (R, M, e)"
    using assms a c by (simp add: dispatch_def runClickHouseQueries_def)
  then obtain e where "dispatch ext q params keys = Inr (R, M, e)" ..
  from QueryRange_keeps_results_and_map [OF assms this] obtain err' where
    "QueryRange ext q params keys = Inr (R, map_of (rev (failures units)), err')"
    using M by blast
  then show "\<exists>results' errorsByName err'.
                 QueryRange ext q params keys = Inr (results', errorsByName, err')
                 \<and> dom errorsByName = Name ` {u \<in> set units. Err u \<noteq> None}
                 \<and> (\<forall>name e. errorsByName name = Some e
                       \<longrightarrow> (\<exists>u \<in> set units. Name u = name \<and> Err u = Some e))
                 \<and> (distinct (map Name units)
                       \<longrightarrow> (\<forall>u \<in> set units. \<forall>e. Err u = Some e
                              \<longrightarrow> errorsByName (Name u) = Some e))"
    using failures_map_facts [of units]
    by (intro exI [of _ R] exI [of _ "map_of (rev (failures units))"] exI [of _ err']) simp
qed

theorem error_exposure_witness:
  "(\<exists>errorsByName err'.
      QueryRange sampleExternals sampleQuerier
        (request (builderComposite PanelTypeGraph threeBuilderQueries)) []
        = Inr ([\<lparr>QueryName = ''A'', ResSeries = [], ResList = []\<rparr>], errorsByName, Some err')
      \<and> errorsByName ''B'' = None
      \<and> errorsByName ''C'' = Some (Collaborator ''memory limit exceeded''))
   \<and> (\<exists>results errorsByName err'.
        QueryRange sampleExternals sampleQuerier
          (request (promComposite PanelTypeGraph twoPromQueries)) []
          = Inr (results, errorsByName, err')
        \<and> dom errorsByName = {''B''}
        \<and> errorsByName ''B'' = Some (Collaborator ''parse error''))
   \<and> (\<exists>results errorsByName err'.
        QueryRange sampleExternals sampleQuerier
          (request (clickHouseComposite PanelTypeGraph threeClickHouseQueries)) []
          = Inr (results, errorsByName, err')
        \<and> dom errorsByName = {''B''}
        \<and> errorsByName ''B'' = Some (Collaborator ''timeout''))"
proof (intro conjI)
  show "(\<exists>errorsByName err'.
      QueryRange sampleExternals sampleQuerier
        (request (builderComposite PanelTypeGraph threeBuilderQueries)) []
        = Inr ([\<lparr>QueryName = ''A'', ResSeries = [], ResList = []\<rparr>], errorsByName, Some err')
      \<and> errorsByName ''B'' = None
      \<and> errorsByName ''C'' = Some (Collaborator ''memory limit exceeded''))"
  proof -
    let ?cq = "builderComposite PanelTypeGraph threeBuilderQueries"
    let ?raw = "[''B'' \<mapsto> Collaborator ''timeout'', ''C'' \<mapsto> Collaborator ''memory limit exceeded'']"
    have h: "CompositeQuery (request ?cq) = Some ?cq" by (simp add: request_def)
    have t: "QueryType ?cq = QueryTypeBuilder
             \<and> (if PanelType ?cq = PanelTypeList \<or> PanelType ?cq = PanelTypeTrace
                 then runBuilderListQueries sampleQuerier (request ?cq) []
                 else runBuilderQueries sampleExternals sampleQuerier (request ?cq) [])
               = Inr ([\<lparr>QueryName = ''A'', ResSeries = [], ResList = []\<rparr>], ?raw,
                      Some (Errorf ''error in builder queries''))"
      using builder_run by (simp add: builderComposite_def)
    have ne: "?raw \<noteq> Map.empty" by simp
    from error_exposure [OF h, where keys = "[]" and ext = sampleExternals and q = sampleQuerier, THEN conjunct1, THEN mp, OF t]
    obtain errorsByName err' where
      q: "QueryRange sampleExternals sampleQuerier (request ?cq) []
            = Inr ([\<lparr>QueryName = ''A'', ResSeries = [], ResList = []\<rparr>], errorsByName, err')"
      and m: "\<forall>name e. errorsByName name = Some e
                \<longleftrightarrow> ?raw name = Some e \<and> IsResourceLimitError sampleExternals e"
      and e: "?raw \<noteq> Map.empty \<longrightarrow> err' \<noteq> None"
      by (elim exE conjE)
    from e ne obtain e' where e': "err' = Some e'" by blast
    from m have c: "errorsByName ''C'' = Some (Collaborator ''memory limit exceeded'')"
      by (simp add: sampleExternals_def)
    have b: "errorsByName ''B'' = None"
    proof (cases "errorsByName ''B''")
      case None
      then show ?thesis .
    next
      case (Some x)
      with m have "[''B'' \<mapsto> Collaborator ''timeout'', ''C'' \<mapsto> Collaborator ''memory limit exceeded''] ''B'' = Some x \<and> IsResourceLimitError sampleExternals x"
        by blast
      then show ?thesis by (auto simp add: sampleExternals_def)
    qed
    from q e' b c show ?thesis by blast
  qed
next
  show "(\<exists>results errorsByName err'.
        QueryRange sampleExternals sampleQuerier
          (request (promComposite PanelTypeGraph twoPromQueries)) []
          = Inr (results, errorsByName, err')
        \<and> dom errorsByName = {''B''}
        \<and> errorsByName ''B'' = Some (Collaborator ''parse error''))"
  proof -
    let ?cq = "promComposite PanelTypeGraph twoPromQueries"
    let ?u1 = "\<lparr>CSeries = [\<lparr>Labels = [(''job'', ''api'')], Points = [\<lparr>Timestamp = 150, Value = 1\<rparr>]\<rparr>],
             CList = [], Err = None, Name = ''A'', Query = ''up''\<rparr>"
    let ?u2 = "\<lparr>CSeries = [], CList = [], Err = Some (Collaborator ''parse error''), Name = ''B'',
             Query = ''up{''\<rparr>"
    have h: "CompositeQuery (request ?cq) = Some ?cq" by (simp add: request_def)
    have t: "QueryType ?cq = QueryTypePromQL \<and> keyGenerator sampleQuerier = Some (\<lambda>params. [])
             \<and> promUnits sampleExternals sampleQuerier (request ?cq) ((\<lambda>params. []) (request ?cq))
                   (PromQueries ?cq) = Inr [?u1, ?u2]"
      using prom_units by (simp add: promComposite_def sampleQuerier_def)
    from error_exposure [OF h, where keys = "[]" and ext = sampleExternals and q = sampleQuerier, THEN conjunct2, THEN conjunct1, THEN mp, OF t]
    obtain results errorsByName err' where
      q: "QueryRange sampleExternals sampleQuerier (request ?cq) [] = Inr (results, errorsByName, err')"
      and d: "dom errorsByName = Name ` {u \<in> set [?u1, ?u2]. Err u \<noteq> None}"
      and r: "\<forall>name e. errorsByName name = Some e
                \<longrightarrow> (\<exists>u \<in> set [?u1, ?u2]. Name u = name \<and> Err u = Some e)"
      and v: "distinct (map Name [?u1, ?u2]) \<longrightarrow>
                (\<forall>u \<in> set [?u1, ?u2]. \<forall>e. Err u = Some e \<longrightarrow> errorsByName (Name u) = Some e)"
      by (elim exE conjE)
    have "Name ` {u \<in> set [?u1, ?u2]. Err u \<noteq> None} = {''B''}"
      unfolding set_filter [symmetric] by simp
    with d have d': "dom errorsByName = {''B''}" by simp
    from v have "errorsByName ''B'' = Some (Collaborator ''parse error'')" by simp
    with q d' show ?thesis by blast
  qed
next
  show "(\<exists>results errorsByName err'.
        QueryRange sampleExternals sampleQuerier
          (request (clickHouseComposite PanelTypeGraph threeClickHouseQueries)) []
          = Inr (results, errorsByName, err')
        \<and> dom errorsByName = {''B''}
        \<and> errorsByName ''B'' = Some (Collaborator ''timeout''))"
  proof -
    let ?cq = "clickHouseComposite PanelTypeGraph threeClickHouseQueries"
    let ?u1 = "\<lparr>CSeries = [\<lparr>Labels = [(''job'', ''api'')], Points = [\<lparr>Timestamp = 10, Value = 2\<rparr>]\<rparr>],
             CList = [], Err = None, Name = ''A'', Query = ''SELECT ok''\<rparr>"
    let ?u2 = "\<lparr>CSeries = [], CList = [], Err = Some (Collaborator ''timeout''), Name = ''B'',
             Query = ''SELECT fail''\<rparr>"
    let ?u3 = "\<lparr>CSeries = [\<lparr>Labels = [(''job'', ''api'')], Points = [\<lparr>Timestamp = 10, Value = 2\<rparr>]\<rparr>,
                        \<lparr>Labels = [(''job'', ''db'')], Points = [\<lparr>Timestamp = 10, Value = 7\<rparr>]\<rparr>],
             CList = [], Err = None, Name = ''C'', Query = ''SELECT by job''\<rparr>"
    have h: "CompositeQuery (request ?cq) = Some ?cq" by (simp add: request_def)
    have t: "QueryType ?cq = QueryTypeClickHouseSQL
             \<and> clickHouseUnits sampleQuerier (ClickHouseQueries ?cq) = Inr [?u1, ?u2, ?u3]"
      using ch_units by (simp add: clickHouseComposite_def)
    from error_exposure [OF h, where keys = "[]" and ext = sampleExternals and q = sampleQuerier, THEN conjunct2, THEN conjunct2, THEN mp, OF t]
    obtain results errorsByName err' where
      q: "QueryRange sampleExternals sampleQuerier (request ?cq) [] = Inr (results, errorsByName, err')"
      and d: "dom errorsByName = Name ` {u \<in> set [?u1, ?u2, ?u3]. Err u \<noteq> None}"
      and r: "\<forall>name e. errorsByName name = Some e
                \<longrightarrow> (\<exists>u \<in> set [?u1, ?u2, ?u3]. Name u = name \<and> Err u = Some e)"
      and v: "distinct (map Name [?u1, ?u2, ?u3]) \<longrightarrow>
                (\<forall>u \<in> set [?u1, ?u2, ?u3]. \<forall>e. Err u = Some e \<longrightarrow> errorsByName (Name u) = Some e)"
      by (elim exE conjE)
    have "Name ` {u \<in> set [?u1, ?u2, ?u3]. Err u \<noteq> None} = {''B''}"
      unfolding set_filter [symmetric] by simp
    with d have d': "dom errorsByName = {''B''}" by simp
    from v have "errorsByName ''B'' = Some (Collaborator ''timeout'')" by simp
    with q d' show ?thesis by blast
  qed
qed

text \<open>
  C6, as stated, fails on the List path of a Builder request: the fetch of query \<open>B\<close>
  fails with an error that is no resource-limit error, the executor records it, and the
  map that \<open>QueryRange\<close> returns is empty. The filter runs on that path too.
\<close>

theorem error_exposure_counterexample:
  "runBuilderListQueries sampleQuerier
     (request (builderComposite PanelTypeList
        [(''A'', \<lparr>BQ_Expression = ''A'', BQ_Disabled = False\<rparr>),
         (''B'', \<lparr>BQ_Expression = ''B'', BQ_Disabled = False\<rparr>)])) []
   = Inr ([], [''B'' \<mapsto> Errorf ''error in query-B: timeout''],
          Some (Errorf ''encountered multiple errors: error in query-B: timeout''))
   \<and> QueryRange sampleExternals sampleQuerier
       (request (builderComposite PanelTypeList
          [(''A'', \<lparr>BQ_Expression = ''A'', BQ_Disabled = False\<rparr>),
           (''B'', \<lparr>BQ_Expression = ''B'', BQ_Disabled = False\<rparr>)])) []
     = Inr ([], Map.empty,
            Some (Errorf ''encountered multiple errors: error in query-B: timeout''))"
  by (simp add: QueryRange_def dispatch_def runBuilderListQueries_def builderComposite_def
      request_def sampleQuerier_def sampleReader_def sampleExternals_def dropInternalErrors_def
      Combine_def fun_eq_iff)






lemma listUnits_reader:
  assumes "reader q = Some rd"
  shows "\<exists>units. listUnits q queries = Inr units
           \<and> (\<forall>(name, query) \<in> set queries. \<forall>rows e.
                 GetListResultV3 rd query = (rows, Some e) \<longrightarrow>
                 (\<exists>u \<in> set units. Name u = name
                    \<and> Err u = Some (Errorf (''error in query-'' @ name @ '': '' @ errorString e))))"
proof (induction queries)
  case Nil
  then show ?case by simp
next
  case (Cons a queries)
  obtain name query where a: "a = (name, query)" by (cases a)
  from Cons obtain units where u: "listUnits q queries = Inr units"
    "\<forall>(name, query) \<in> set queries. \<forall>rows e.
                 GetListResultV3 rd query = (rows, Some e) \<longrightarrow>
                 (\<exists>u \<in> set units. Name u = name
                    \<and> Err u = Some (Errorf (''error in query-'' @ name @ '': '' @ errorString e)))"
    by blast
  obtain rowList err where g: "GetListResultV3 rd query = (rowList, err)"
    by (cases "GetListResultV3 rd query")
  show ?case
  proof (cases err)
    case None
    with a u g assms show ?thesis by auto
  next
    case (Some e)
    with a u g assms show ?thesis by auto
  qed
qed

text \<open>
  C8. A Builder request of panel type List or Trace. If the translation of the
  sub-queries fails, the call returns no result and that error. If the fetch of a
  prepared query fails, the call returns no result, an error map that records the query,
  and the combined error of all failed fetches.
\<close>

theorem list_path_all_or_nothing:
  assumes "CompositeQuery params = Some cq" and "QueryType cq = QueryTypeBuilder"
    and "PanelType cq = PanelTypeList \<or> PanelType cq = PanelTypeTrace"
  shows "(PrepareQueries q params keys = Inl e \<longrightarrow>
            runBuilderListQueries q params keys = Inr ([], Map.empty, Some e)
            \<and> QueryRange ext q params keys = Inr ([], Map.empty, Some e))
       \<and> (PrepareQueries q params keys = Inr queries \<and> reader q = Some rd
            \<and> (name, query) \<in> set queries \<and> GetListResultV3 rd query = (rows, Some e') \<longrightarrow>
            (\<exists>errQuriesByName errs.
               runBuilderListQueries q params keys =
                 Inr ([], errQuriesByName,
                      Some (Errorf (''encountered multiple errors: '' @ Combine errs)))
               \<and> name \<in> dom errQuriesByName
               \<and> Errorf (''error in query-'' @ name @ '': '' @ errorString e') \<in> set errs
               \<and> QueryRange ext q params keys =
                   Inr ([], dropInternalErrors ext errQuriesByName,
                        Some (Errorf (''encountered multiple errors: '' @ Combine errs)))))"
proof (intro conjI impI)
  assume t: "PrepareQueries q params keys = Inl e"
  then show "runBuilderListQueries q params keys = Inr ([], Map.empty, Some e)"
    by (simp add: runBuilderListQueries_def)
  then have "dispatch ext q params keys = Inr ([], Map.empty, Some e)"
    using assms by (simp add: dispatch_def dropInternalErrors_def)
  then show "QueryRange ext q params keys = Inr ([], Map.empty, Some e)"
    using assms by (auto simp add: QueryRange_def)
next
  assume f: "PrepareQueries q params keys = Inr queries \<and> reader q = Some rd
            \<and> (name, query) \<in> set queries \<and> GetListResultV3 rd query = (rows, Some e')"
  let ?wrapped = "Errorf (''error in query-'' @ name @ '': '' @ errorString e')"
  from f listUnits_reader [of q rd queries] obtain units u where
    u: "listUnits q queries = Inr units" "u \<in> set units" "Name u = name" "Err u = Some ?wrapped"
    by blast
  obtain R M E where c: "collectList units ([], Map.empty, []) = (R, M, E)"
    using prod_cases3 by blast
  have "M = fst (snd (collectList units ([], Map.empty, [])))" using c by simp
  then have "dom M = Name ` {r \<in> set units. Err r \<noteq> None}"
    by (simp add: collectList_map dom_failures)
  with u have inM: "name \<in> dom M" by force
  have "E = snd (snd (collectList units ([], Map.empty, [])))" using c by simp
  then have "set E = {y. \<exists>x \<in> set units. Err x = Some y}"
    by (simp add: collectList_errs set_map_filter)
  with u have inE: "?wrapped \<in> set E" by auto
  then have E: "E \<noteq> []" by auto
  have run: "runBuilderListQueries q params keys =
               Inr ([], M, Some (Errorf (''encountered multiple errors: '' @ Combine E)))"
    using f u(1) c E by (simp add: runBuilderListQueries_def)
  then have "dispatch ext q params keys =
               Inr ([], dropInternalErrors ext M,
                    Some (Errorf (''encountered multiple errors: '' @ Combine E)))"
    using assms by (simp add: dispatch_def)
  then have "QueryRange ext q params keys =
               Inr ([], dropInternalErrors ext M,
                    Some (Errorf (''encountered multiple errors: '' @ Combine E)))"
    using assms by (auto simp add: QueryRange_def)
  with run inM inE
  show "\<exists>errQuriesByName errs.
               runBuilderListQueries q params keys =
                 Inr ([], errQuriesByName,
                      Some (Errorf (''encountered multiple errors: '' @ Combine errs)))
               \<and> name \<in> dom errQuriesByName
               \<and> Errorf (''error in query-'' @ name @ '': '' @ errorString e') \<in> set errs
               \<and> QueryRange ext q params keys =
                   Inr ([], dropInternalErrors ext errQuriesByName,
                        Some (Errorf (''encountered multiple errors: '' @ Combine errs)))"
    by blast
qed

theorem list_path_all_or_nothing_witness:
  "runBuilderListQueries sampleQuerier (request (builderComposite PanelTypeList [])) []
     = Inr ([], Map.empty, Some (Collaborator ''no builder query''))
   \<and> QueryRange sampleExternals sampleQuerier (request (builderComposite PanelTypeList [])) []
     = Inr ([], Map.empty, Some (Collaborator ''no builder query''))
   \<and> (\<exists>errQuriesByName errs.
         runBuilderListQueries sampleQuerier
           (request (builderComposite PanelTypeTrace threeBuilderQueries)) []
           = Inr ([], errQuriesByName,
                  Some (Errorf (''encountered multiple errors: '' @ Combine errs)))
         \<and> ''B'' \<in> dom errQuriesByName
         \<and> Errorf ''error in query-B: timeout'' \<in> set errs
         \<and> QueryRange sampleExternals sampleQuerier
             (request (builderComposite PanelTypeTrace threeBuilderQueries)) []
             = Inr ([], dropInternalErrors sampleExternals errQuriesByName,
                    Some (Errorf (''encountered multiple errors: '' @ Combine errs))))"
proof -
  let ?cq0 = "builderComposite PanelTypeList []"
  have h0: "CompositeQuery (request ?cq0) = Some ?cq0" by (simp add: request_def)
  have t0: "QueryType ?cq0 = QueryTypeBuilder" by (simp add: builderComposite_def)
  have p0: "PanelType ?cq0 = PanelTypeList \<or> PanelType ?cq0 = PanelTypeTrace"
    by (simp add: builderComposite_def)
  have f0: "PrepareQueries sampleQuerier (request ?cq0) [] = Inl (Collaborator ''no builder query'')"
    by (simp add: sampleQuerier_def request_def builderComposite_def)
  note a = list_path_all_or_nothing [OF h0 t0 p0, where ext = sampleExternals and q = sampleQuerier
      and keys = "[]", THEN conjunct1, THEN mp, OF f0]
  let ?cq1 = "builderComposite PanelTypeTrace threeBuilderQueries"
  have h1: "CompositeQuery (request ?cq1) = Some ?cq1" by (simp add: request_def)
  have t1: "QueryType ?cq1 = QueryTypeBuilder" by (simp add: builderComposite_def)
  have p1: "PanelType ?cq1 = PanelTypeList \<or> PanelType ?cq1 = PanelTypeTrace"
    by (simp add: builderComposite_def)
  have f1: "PrepareQueries sampleQuerier (request ?cq1) []
              = Inr [(''A'', ''SELECT A''), (''B'', ''SELECT B''), (''C'', ''SELECT C''),
                     (''F1'', ''SELECT F1'')]
            \<and> reader sampleQuerier = Some sampleReader
            \<and> (''B'', ''SELECT B'') \<in> set [(''A'', ''SELECT A''), (''B'', ''SELECT B''),
                  (''C'', ''SELECT C''), (''F1'', ''SELECT F1'')]
            \<and> GetListResultV3 sampleReader ''SELECT B'' = ([], Some (Collaborator ''timeout''))"
    by (simp add: sampleQuerier_def sampleReader_def request_def builderComposite_def
        threeBuilderQueries_def)
  note b = list_path_all_or_nothing [OF h1 t1 p1, where ext = sampleExternals and q = sampleQuerier
      and keys = "[]", THEN conjunct2, THEN mp, OF f1]
  from a b show ?thesis by simp
qed

text \<open>
  C10. The claim asks that a request without composite query gets nil results, a nil
  error map and a nil error. The dispatch is skipped by its nil check, but the check for
  Value panels that follows reads \<open>params.CompositeQuery.PanelType\<close>: the call panics.
\<close>

theorem nil_composite_query_panics:
  "QueryRange ext q (params\<lparr>CompositeQuery := None\<rparr>) keys = Inl NilPointerDereference"
  by (simp add: QueryRange_def dispatch_def)

end
